theory Spec2Isabelle
  imports Main "HOL-Library.Word"
begin

unbundle bit_operations_syntax

section \<open>Pin word, flags and pipeline constants\<close>

text \<open>
  The pin word is a \<open>uint64_t\<close>. The pin macros of the header are \<open>1ULL<<n\<close>,
  that is 64-bit shifts.
\<close>

definition Z80_M1 :: "64 word" where "Z80_M1 = push_bit 24 1"
definition Z80_MREQ :: "64 word" where "Z80_MREQ = push_bit 25 1"
definition Z80_IORQ :: "64 word" where "Z80_IORQ = push_bit 26 1"
definition Z80_RD :: "64 word" where "Z80_RD = push_bit 27 1"
definition Z80_WR :: "64 word" where "Z80_WR = push_bit 28 1"
definition Z80_HALT :: "64 word" where "Z80_HALT = push_bit 29 1"
definition Z80_INT :: "64 word" where "Z80_INT = push_bit 30 1"
definition Z80_RES :: "64 word" where "Z80_RES = push_bit 31 1"
definition Z80_NMI :: "64 word" where "Z80_NMI = push_bit 32 1"
definition Z80_WAIT :: "64 word" where "Z80_WAIT = push_bit 33 1"
definition Z80_RFSH :: "64 word" where "Z80_RFSH = push_bit 34 1"

definition Z80_CTRL_PIN_MASK :: "64 word" where
  "Z80_CTRL_PIN_MASK = Z80_M1 OR Z80_MREQ OR Z80_IORQ OR Z80_RD OR Z80_WR OR Z80_RFSH"

definition Z80_GET_ADDR :: "64 word \<Rightarrow> 16 word" where
  "Z80_GET_ADDR p = ucast (p AND 0xFFFF)"

definition Z80_GET_DATA :: "64 word \<Rightarrow> 8 word" where
  "Z80_GET_DATA p = ucast (drop_bit 16 p AND 0xFF)"

definition Z80_ZF :: "8 word" where "Z80_ZF = push_bit 6 1"
definition Z80_CF :: "8 word" where "Z80_CF = push_bit 0 1"

definition Z80_PIP_BIT_STEP :: "64 word" where "Z80_PIP_BIT_STEP = push_bit 0 1"
definition Z80_PIP_BIT_WAIT :: "64 word" where "Z80_PIP_BIT_WAIT = push_bit 32 1"
definition Z80_PIP_BITS :: "64 word" where
  "Z80_PIP_BITS = Z80_PIP_BIT_STEP OR Z80_PIP_BIT_WAIT"

section \<open>CPU state\<close>

record z80_opstate_t =
  pip :: "64 word"
  step :: "64 word"

text \<open>
  Each anonymous union of the struct overlays two bytes with one 16-bit word, the byte
  declared first (\<open>f\<close>, \<open>c\<close>, \<open>e\<close>, \<open>l\<close>, \<open>wzl\<close>, \<open>spl\<close>) being the low one. The
  record keeps the 16-bit word; the bytes are read and written through it. The scalar
  registers \<open>i\<close> and \<open>r\<close> of the struct are the fields \<open>reg_i\<close> and \<open>reg_r\<close>.
\<close>

record z80_t =
  pins :: "64 word"
  op :: z80_opstate_t
  pc :: "16 word"
  ir :: "8 word"
  dlatch :: "8 word"
  af :: "16 word"
  bc :: "16 word"
  de :: "16 word"
  hl :: "16 word"
  wz :: "16 word"
  sp :: "16 word"
  ix :: "16 word"
  iy :: "16 word"
  reg_i :: "8 word"
  reg_r :: "8 word"
  im :: "8 word"
  af2 :: "16 word"
  bc2 :: "16 word"
  de2 :: "16 word"
  hl2 :: "16 word"

definition lo8 :: "16 word \<Rightarrow> 8 word" where
  "lo8 w = ucast w"

definition hi8 :: "16 word \<Rightarrow> 8 word" where
  "hi8 w = ucast (drop_bit 8 w)"

definition with_lo8 :: "16 word \<Rightarrow> 8 word \<Rightarrow> 16 word" where
  "with_lo8 w v = (w AND 0xFF00) OR ucast v"

definition with_hi8 :: "16 word \<Rightarrow> 8 word \<Rightarrow> 16 word" where
  "with_hi8 w v = (w AND 0x00FF) OR push_bit 8 (ucast v)"

definition reg_f :: "z80_t \<Rightarrow> 8 word" where "reg_f cpu = lo8 (af cpu)"
definition reg_a :: "z80_t \<Rightarrow> 8 word" where "reg_a cpu = hi8 (af cpu)"
definition reg_c :: "z80_t \<Rightarrow> 8 word" where "reg_c cpu = lo8 (bc cpu)"
definition reg_b :: "z80_t \<Rightarrow> 8 word" where "reg_b cpu = hi8 (bc cpu)"
definition reg_e :: "z80_t \<Rightarrow> 8 word" where "reg_e cpu = lo8 (de cpu)"
definition reg_d :: "z80_t \<Rightarrow> 8 word" where "reg_d cpu = hi8 (de cpu)"
definition reg_l :: "z80_t \<Rightarrow> 8 word" where "reg_l cpu = lo8 (hl cpu)"
definition reg_h :: "z80_t \<Rightarrow> 8 word" where "reg_h cpu = hi8 (hl cpu)"

definition set_a :: "z80_t \<Rightarrow> 8 word \<Rightarrow> z80_t" where
  "set_a cpu v = cpu\<lparr>af := with_hi8 (af cpu) v\<rparr>"
definition set_c :: "z80_t \<Rightarrow> 8 word \<Rightarrow> z80_t" where
  "set_c cpu v = cpu\<lparr>bc := with_lo8 (bc cpu) v\<rparr>"
definition set_b :: "z80_t \<Rightarrow> 8 word \<Rightarrow> z80_t" where
  "set_b cpu v = cpu\<lparr>bc := with_hi8 (bc cpu) v\<rparr>"
definition set_e :: "z80_t \<Rightarrow> 8 word \<Rightarrow> z80_t" where
  "set_e cpu v = cpu\<lparr>de := with_lo8 (de cpu) v\<rparr>"
definition set_d :: "z80_t \<Rightarrow> 8 word \<Rightarrow> z80_t" where
  "set_d cpu v = cpu\<lparr>de := with_hi8 (de cpu) v\<rparr>"
definition set_l :: "z80_t \<Rightarrow> 8 word \<Rightarrow> z80_t" where
  "set_l cpu v = cpu\<lparr>hl := with_lo8 (hl cpu) v\<rparr>"
definition set_h :: "z80_t \<Rightarrow> 8 word \<Rightarrow> z80_t" where
  "set_h cpu v = cpu\<lparr>hl := with_hi8 (hl cpu) v\<rparr>"
definition set_wzl :: "z80_t \<Rightarrow> 8 word \<Rightarrow> z80_t" where
  "set_wzl cpu v = cpu\<lparr>wz := with_lo8 (wz cpu) v\<rparr>"
definition set_wzh :: "z80_t \<Rightarrow> 8 word \<Rightarrow> z80_t" where
  "set_wzh cpu v = cpu\<lparr>wz := with_hi8 (wz cpu) v\<rparr>"
definition set_spl :: "z80_t \<Rightarrow> 8 word \<Rightarrow> z80_t" where
  "set_spl cpu v = cpu\<lparr>sp := with_lo8 (sp cpu) v\<rparr>"
definition set_sph :: "z80_t \<Rightarrow> 8 word \<Rightarrow> z80_t" where
  "set_sph cpu v = cpu\<lparr>sp := with_hi8 (sp cpu) v\<rparr>"

section \<open>Control surface\<close>

text \<open>The struct after \<open>memset(cpu, 0, sizeof(z80_t))\<close>.\<close>

definition z80_zero :: z80_t where
  "z80_zero = \<lparr>pins = 0, op = \<lparr>pip = 0, step = 0\<rparr>, pc = 0, ir = 0, dlatch = 0,
     af = 0, bc = 0, de = 0, hl = 0, wz = 0, sp = 0, ix = 0, iy = 0,
     reg_i = 0, reg_r = 0, im = 0, af2 = 0, bc2 = 0, de2 = 0, hl2 = 0\<rparr>"

text \<open>
  \<open>cpu->op.pip = (1<<31)|5\<close>: both literals are \<open>int\<close>, so the expression is a 32-bit
  signed value with the sign bit set, and the assignment to the \<open>uint64_t\<close> field
  converts it by sign extension (\<open>scast\<close>).
\<close>

definition z80_init :: "z80_t \<Rightarrow> z80_t \<times> 64 word" where
  "z80_init cpu =
     (let cpu = z80_zero;
          cpu = cpu\<lparr>af := 0x5555, bc := 0x5555, de := 0x5555, hl := 0x5555\<rparr>;
          cpu = cpu\<lparr>wz := 0x5555, sp := 0x5555, ix := 0x5555, iy := 0x5555\<rparr>;
          cpu = cpu\<lparr>af2 := 0x5555, bc2 := 0x5555, de2 := 0x5555, hl2 := 0x5555\<rparr>;
          cpu = cpu\<lparr>op := (op cpu)\<lparr>pip := scast (push_bit 31 (1 :: 32 word) OR 5)\<rparr>\<rparr>
      in (cpu, Z80_M1 OR Z80_MREQ OR Z80_RD))"

definition z80_opdone :: "z80_t \<Rightarrow> bool" where
  "z80_opdone cpu = (0 = step (op cpu))"

definition z80_prefetch :: "z80_t \<Rightarrow> 16 word \<Rightarrow> z80_t \<times> 64 word" where
  "z80_prefetch cpu new_pc =
     (let cpu = cpu\<lparr>pc := new_pc\<rparr>;
          cpu = cpu\<lparr>op := (op cpu)\<lparr>pip := 1\<rparr>\<rparr>;
          cpu = cpu\<lparr>op := (op cpu)\<lparr>step := 2\<rparr>\<rparr>
      in (cpu, 0))"

section \<open>ALU\<close>

text \<open>
  Every ALU function of the source has the body \<open>(void)cpu; (void)val; return 0;\<close>
  under a FIXME comment: the CPU, and with it the flags byte, is returned as it came.
\<close>

definition z80_halt :: "z80_t \<Rightarrow> z80_t" where
  "z80_halt cpu = cpu"
definition z80_add :: "z80_t \<Rightarrow> 8 word \<Rightarrow> z80_t \<times> 8 word" where
  "z80_add cpu val = (cpu, 0)"
definition z80_adc :: "z80_t \<Rightarrow> 8 word \<Rightarrow> z80_t \<times> 8 word" where
  "z80_adc cpu val = (cpu, 0)"
definition z80_sub :: "z80_t \<Rightarrow> 8 word \<Rightarrow> z80_t \<times> 8 word" where
  "z80_sub cpu val = (cpu, 0)"
definition z80_sbc :: "z80_t \<Rightarrow> 8 word \<Rightarrow> z80_t \<times> 8 word" where
  "z80_sbc cpu val = (cpu, 0)"
definition z80_and :: "z80_t \<Rightarrow> 8 word \<Rightarrow> z80_t \<times> 8 word" where
  "z80_and cpu val = (cpu, 0)"
definition z80_xor :: "z80_t \<Rightarrow> 8 word \<Rightarrow> z80_t \<times> 8 word" where
  "z80_xor cpu val = (cpu, 0)"
definition z80_or :: "z80_t \<Rightarrow> 8 word \<Rightarrow> z80_t \<times> 8 word" where
  "z80_or cpu val = (cpu, 0)"
definition z80_cp :: "z80_t \<Rightarrow> 8 word \<Rightarrow> z80_t" where
  "z80_cp cpu val = cpu"

section \<open>Pin helpers\<close>

text \<open>
  \<open>~0xFFFF\<close> and \<open>~0xFFFFFF\<close> are \<open>int\<close> values with the sign bit set; converted to
  \<open>uint64_t\<close> for the \<open>&\<close> they are the 64-bit complements.
\<close>

definition z80_set_ab :: "64 word \<Rightarrow> 16 word \<Rightarrow> 64 word" where
  "z80_set_ab p ab = (p AND NOT 0xFFFF) OR ucast ab"

definition z80_set_ab_x :: "64 word \<Rightarrow> 16 word \<Rightarrow> 64 word \<Rightarrow> 64 word" where
  "z80_set_ab_x p ab x = (p AND NOT 0xFFFF) OR ucast ab OR x"

definition z80_set_ab_db :: "64 word \<Rightarrow> 16 word \<Rightarrow> 8 word \<Rightarrow> 64 word" where
  "z80_set_ab_db p ab db = (p AND NOT 0xFFFFFF) OR push_bit 16 (ucast db) OR ucast ab"

definition z80_set_ab_db_x :: "64 word \<Rightarrow> 16 word \<Rightarrow> 8 word \<Rightarrow> 64 word \<Rightarrow> 64 word" where
  "z80_set_ab_db_x p ab db x = (p AND NOT 0xFFFFFF) OR push_bit 16 (ucast db) OR ucast ab OR x"

definition z80_get_db :: "64 word \<Rightarrow> 8 word" where
  "z80_get_db p = ucast (drop_bit 16 p)"

text \<open>The macros \<open>_mread(ab)\<close> and \<open>_mwrite(ab,d)\<close>.\<close>

definition mread :: "64 word \<Rightarrow> 16 word \<Rightarrow> 64 word" where
  "mread p ab = z80_set_ab_x p ab (Z80_MREQ OR Z80_RD)"

definition mwrite :: "64 word \<Rightarrow> 16 word \<Rightarrow> 8 word \<Rightarrow> 64 word" where
  "mwrite p ab d = z80_set_ab_db_x p ab d (Z80_MREQ OR Z80_WR)"

text \<open>Initiate a fetch machine cycle: the decoder continues at case 0.\<close>

definition z80_fetch :: "z80_t \<Rightarrow> 64 word \<Rightarrow> z80_t \<times> 64 word" where
  "z80_fetch cpu p =
     (let cpu = cpu\<lparr>op := (op cpu)\<lparr>pip := push_bit 32 1 OR push_bit 1 5\<rparr>\<rparr>;
          cpu = cpu\<lparr>op := (op cpu)\<lparr>step := 0\<rparr>\<rparr>;
          ab = pc cpu;
          cpu = cpu\<lparr>pc := pc cpu + 1\<rparr>;
          p = z80_set_ab_x p ab (Z80_M1 OR Z80_MREQ OR Z80_RD)
      in (cpu, p))"

text \<open>Initiate a refresh cycle.\<close>

definition z80_refresh :: "z80_t \<Rightarrow> 64 word \<Rightarrow> z80_t \<times> 64 word" where
  "z80_refresh cpu p =
     (let p = z80_set_ab_x p (ucast (reg_r cpu)) (Z80_MREQ OR Z80_RFSH);
          cpu = cpu\<lparr>reg_r := (reg_r cpu AND 0x80) OR ((reg_r cpu + 1) AND 0x7F)\<rparr>
      in (cpu, p))"

section \<open>Opcode table\<close>

definition z80_opstate_table :: "z80_opstate_t list" where
  "z80_opstate_table = [
    \<lparr>pip = 0x0000000000000002, step = 0x0002\<rparr>, \<comment> \<open>0x00: nop\<close>
    \<lparr>pip = 0x00000024000000B6, step = 0x0003\<rparr>, \<comment> \<open>0x01: ld bc,nn\<close>
    \<lparr>pip = 0x0000000400000014, step = 0x0008\<rparr>, \<comment> \<open>0x02: ld (bc),a\<close>
    \<lparr>pip = 0x0000000000000002, step = 0x000A\<rparr>, \<comment> \<open>0x03: inc bc\<close>
    \<lparr>pip = 0x0000000000000002, step = 0x000B\<rparr>, \<comment> \<open>0x04: inc b\<close>
    \<lparr>pip = 0x0000000000000002, step = 0x000C\<rparr>, \<comment> \<open>0x05: dec b\<close>
    \<lparr>pip = 0x0000000400000016, step = 0x000D\<rparr>, \<comment> \<open>0x06: ld b,n\<close>
    \<lparr>pip = 0x0000000000000002, step = 0x0010\<rparr>, \<comment> \<open>0x07: rlca\<close>
    \<lparr>pip = 0x0000000000000002, step = 0x0011\<rparr>, \<comment> \<open>0x08: ex af,af'\<close>
    \<lparr>pip = 0x0000000000000002, step = 0x0012\<rparr>, \<comment> \<open>0x09: add hl,bc\<close>
    \<lparr>pip = 0x0000000400000016, step = 0x0013\<rparr>, \<comment> \<open>0x0A: ld a,(bc)\<close>
    \<lparr>pip = 0x0000000000000002, step = 0x0016\<rparr>, \<comment> \<open>0x0B: dec bc\<close>
    \<lparr>pip = 0x0000000000000002, step = 0x0017\<rparr>, \<comment> \<open>0x0C: inc c\<close>
    \<lparr>pip = 0x0000000000000002, step = 0x0018\<rparr>, \<comment> \<open>0x0D: dec c\<close>
    \<lparr>pip = 0x0000000400000016, step = 0x0019\<rparr>, \<comment> \<open>0x0E: ld c,n\<close>
    \<lparr>pip = 0x0000000000000002, step = 0x001C\<rparr>, \<comment> \<open>0x0F: rrca\<close>
    \<lparr>pip = 0x0000000000000002, step = 0x001D\<rparr>, \<comment> \<open>0x10: djnz d\<close>
    \<lparr>pip = 0x00000024000000B6, step = 0x001E\<rparr>, \<comment> \<open>0x11: ld de,nn\<close>
    \<lparr>pip = 0x0000000400000014, step = 0x0023\<rparr>, \<comment> \<open>0x12: ld (de),a\<close>
    \<lparr>pip = 0x0000000000000002, step = 0x0025\<rparr>, \<comment> \<open>0x13: inc de\<close>
    \<lparr>pip = 0x0000000000000002, step = 0x0026\<rparr>, \<comment> \<open>0x14: inc d\<close>
    \<lparr>pip = 0x0000000000000002, step = 0x0027\<rparr>, \<comment> \<open>0x15: dec d\<close>
    \<lparr>pip = 0x0000000400000016, step = 0x0028\<rparr>, \<comment> \<open>0x16: ld d,n\<close>
    \<lparr>pip = 0x0000000000000002, step = 0x002B\<rparr>, \<comment> \<open>0x17: rla\<close>
    \<lparr>pip = 0x0000000000000002, step = 0x002C\<rparr>, \<comment> \<open>0x18: jr d\<close>
    \<lparr>pip = 0x0000000000000002, step = 0x002D\<rparr>, \<comment> \<open>0x19: add hl,de\<close>
    \<lparr>pip = 0x0000000400000016, step = 0x002E\<rparr>, \<comment> \<open>0x1A: ld a,(de)\<close>
    \<lparr>pip = 0x0000000000000002, step = 0x0031\<rparr>, \<comment> \<open>0x1B: dec de\<close>
    \<lparr>pip = 0x0000000000000002, step = 0x0032\<rparr>, \<comment> \<open>0x1C: inc e\<close>
    \<lparr>pip = 0x0000000000000002, step = 0x0033\<rparr>, \<comment> \<open>0x1D: dec e\<close>
    \<lparr>pip = 0x0000000400000016, step = 0x0034\<rparr>, \<comment> \<open>0x1E: ld e,n\<close>
    \<lparr>pip = 0x0000000000000002, step = 0x0037\<rparr>, \<comment> \<open>0x1F: rra\<close>
    \<lparr>pip = 0x0000000000000002, step = 0x0038\<rparr>, \<comment> \<open>0x20: jr nz,d\<close>
    \<lparr>pip = 0x00000024000000B6, step = 0x0039\<rparr>, \<comment> \<open>0x21: ld hl,nn\<close>
    \<lparr>pip = 0x0000000000000002, step = 0x003E\<rparr>, \<comment> \<open>0x22: ld (nn),hl\<close>
    \<lparr>pip = 0x0000000000000002, step = 0x003F\<rparr>, \<comment> \<open>0x23: inc hl\<close>
    \<lparr>pip = 0x0000000000000002, step = 0x0040\<rparr>, \<comment> \<open>0x24: inc h\<close>
    \<lparr>pip = 0x0000000000000002, step = 0x0041\<rparr>, \<comment> \<open>0x25: dec h\<close>
    \<lparr>pip = 0x0000000400000016, step = 0x0042\<rparr>, \<comment> \<open>0x26: ld h,n\<close>
    \<lparr>pip = 0x0000000000000002, step = 0x0045\<rparr>, \<comment> \<open>0x27: daa\<close>
    \<lparr>pip = 0x0000000000000002, step = 0x0046\<rparr>, \<comment> \<open>0x28: jr z,d\<close>
    \<lparr>pip = 0x0000000000000002, step = 0x0047\<rparr>, \<comment> \<open>0x29: add hl,hl\<close>
    \<lparr>pip = 0x0000000000000002, step = 0x0048\<rparr>, \<comment> \<open>0x2A: ld hl,(nn)\<close>
    \<lparr>pip = 0x0000000000000002, step = 0x0049\<rparr>, \<comment> \<open>0x2B: dec hl\<close>
    \<lparr>pip = 0x0000000000000002, step = 0x004A\<rparr>, \<comment> \<open>0x2C: inc l\<close>
    \<lparr>pip = 0x0000000000000002, step = 0x004B\<rparr>, \<comment> \<open>0x2D: dec l\<close>
    \<lparr>pip = 0x0000000400000016, step = 0x004C\<rparr>, \<comment> \<open>0x2E: ld l,n\<close>
    \<lparr>pip = 0x0000000000000002, step = 0x004F\<rparr>, \<comment> \<open>0x2F: cpl\<close>
    \<lparr>pip = 0x0000000000000002, step = 0x0050\<rparr>, \<comment> \<open>0x30: jr nc,d\<close>
    \<lparr>pip = 0x00000024000000B6, step = 0x0051\<rparr>, \<comment> \<open>0x31: ld sp,nn\<close>
    \<lparr>pip = 0x0000012400000536, step = 0x0056\<rparr>, \<comment> \<open>0x32: ld (nn),a\<close>
    \<lparr>pip = 0x0000000000000002, step = 0x005C\<rparr>, \<comment> \<open>0x33: inc sp\<close>
    \<lparr>pip = 0x0000000000000002, step = 0x005D\<rparr>, \<comment> \<open>0x34: inc (hl)\<close>
    \<lparr>pip = 0x0000000000000002, step = 0x005E\<rparr>, \<comment> \<open>0x35: dec (hl)\<close>
    \<lparr>pip = 0x00000024000000A6, step = 0x005F\<rparr>, \<comment> \<open>0x36: ld (HL),n\<close>
    \<lparr>pip = 0x0000000000000002, step = 0x0063\<rparr>, \<comment> \<open>0x37: scf\<close>
    \<lparr>pip = 0x0000000000000002, step = 0x0064\<rparr>, \<comment> \<open>0x38: jr c,d\<close>
    \<lparr>pip = 0x0000000000000002, step = 0x0065\<rparr>, \<comment> \<open>0x39: add hl,sp\<close>
    \<lparr>pip = 0x00000124000005B6, step = 0x0066\<rparr>, \<comment> \<open>0x3A: ld a,(nn)\<close>
    \<lparr>pip = 0x0000000000000002, step = 0x006D\<rparr>, \<comment> \<open>0x3B: dec sp\<close>
    \<lparr>pip = 0x0000000000000002, step = 0x006E\<rparr>, \<comment> \<open>0x3C: inc a\<close>
    \<lparr>pip = 0x0000000000000002, step = 0x006F\<rparr>, \<comment> \<open>0x3D: dec a\<close>
    \<lparr>pip = 0x0000000400000016, step = 0x0070\<rparr>, \<comment> \<open>0x3E: ld a,n\<close>
    \<lparr>pip = 0x0000000000000002, step = 0x0073\<rparr>, \<comment> \<open>0x3F: ccf\<close>
    \<lparr>pip = 0x0000000000000002, step = 0x0074\<rparr>, \<comment> \<open>0x40: ld b,b\<close>
    \<lparr>pip = 0x0000000000000002, step = 0x0075\<rparr>, \<comment> \<open>0x41: ld b,c\<close>
    \<lparr>pip = 0x0000000000000002, step = 0x0076\<rparr>, \<comment> \<open>0x42: ld b,d\<close>
    \<lparr>pip = 0x0000000000000002, step = 0x0077\<rparr>, \<comment> \<open>0x43: ld b,e\<close>
    \<lparr>pip = 0x0000000000000002, step = 0x0078\<rparr>, \<comment> \<open>0x44: ld b,h\<close>
    \<lparr>pip = 0x0000000000000002, step = 0x0079\<rparr>, \<comment> \<open>0x45: ld b,l\<close>
    \<lparr>pip = 0x0000000400000016, step = 0x007A\<rparr>, \<comment> \<open>0x46: ld b,(hl)\<close>
    \<lparr>pip = 0x0000000000000002, step = 0x007D\<rparr>, \<comment> \<open>0x47: ld b,a\<close>
    \<lparr>pip = 0x0000000000000002, step = 0x007E\<rparr>, \<comment> \<open>0x48: ld c,b\<close>
    \<lparr>pip = 0x0000000000000002, step = 0x007F\<rparr>, \<comment> \<open>0x49: ld c,c\<close>
    \<lparr>pip = 0x0000000000000002, step = 0x0080\<rparr>, \<comment> \<open>0x4A: ld c,d\<close>
    \<lparr>pip = 0x0000000000000002, step = 0x0081\<rparr>, \<comment> \<open>0x4B: ld c,e\<close>
    \<lparr>pip = 0x0000000000000002, step = 0x0082\<rparr>, \<comment> \<open>0x4C: ld c,h\<close>
    \<lparr>pip = 0x0000000000000002, step = 0x0083\<rparr>, \<comment> \<open>0x4D: ld c,l\<close>
    \<lparr>pip = 0x0000000400000016, step = 0x0084\<rparr>, \<comment> \<open>0x4E: ld c,(hl)\<close>
    \<lparr>pip = 0x0000000000000002, step = 0x0087\<rparr>, \<comment> \<open>0x4F: ld c,a\<close>
    \<lparr>pip = 0x0000000000000002, step = 0x0088\<rparr>, \<comment> \<open>0x50: ld d,b\<close>
    \<lparr>pip = 0x0000000000000002, step = 0x0089\<rparr>, \<comment> \<open>0x51: ld d,c\<close>
    \<lparr>pip = 0x0000000000000002, step = 0x008A\<rparr>, \<comment> \<open>0x52: ld d,d\<close>
    \<lparr>pip = 0x0000000000000002, step = 0x008B\<rparr>, \<comment> \<open>0x53: ld d,e\<close>
    \<lparr>pip = 0x0000000000000002, step = 0x008C\<rparr>, \<comment> \<open>0x54: ld d,h\<close>
    \<lparr>pip = 0x0000000000000002, step = 0x008D\<rparr>, \<comment> \<open>0x55: ld d,l\<close>
    \<lparr>pip = 0x0000000400000016, step = 0x008E\<rparr>, \<comment> \<open>0x56: ld d,(hl)\<close>
    \<lparr>pip = 0x0000000000000002, step = 0x0091\<rparr>, \<comment> \<open>0x57: ld d,a\<close>
    \<lparr>pip = 0x0000000000000002, step = 0x0092\<rparr>, \<comment> \<open>0x58: ld e,b\<close>
    \<lparr>pip = 0x0000000000000002, step = 0x0093\<rparr>, \<comment> \<open>0x59: ld e,c\<close>
    \<lparr>pip = 0x0000000000000002, step = 0x0094\<rparr>, \<comment> \<open>0x5A: ld e,d\<close>
    \<lparr>pip = 0x0000000000000002, step = 0x0095\<rparr>, \<comment> \<open>0x5B: ld e,e\<close>
    \<lparr>pip = 0x0000000000000002, step = 0x0096\<rparr>, \<comment> \<open>0x5C: ld e,h\<close>
    \<lparr>pip = 0x0000000000000002, step = 0x0097\<rparr>, \<comment> \<open>0x5D: ld e,l\<close>
    \<lparr>pip = 0x0000000400000016, step = 0x0098\<rparr>, \<comment> \<open>0x5E: ld e,(hl)\<close>
    \<lparr>pip = 0x0000000000000002, step = 0x009B\<rparr>, \<comment> \<open>0x5F: ld e,a\<close>
    \<lparr>pip = 0x0000000000000002, step = 0x009C\<rparr>, \<comment> \<open>0x60: ld h,b\<close>
    \<lparr>pip = 0x0000000000000002, step = 0x009D\<rparr>, \<comment> \<open>0x61: ld h,c\<close>
    \<lparr>pip = 0x0000000000000002, step = 0x009E\<rparr>, \<comment> \<open>0x62: ld h,d\<close>
    \<lparr>pip = 0x0000000000000002, step = 0x009F\<rparr>, \<comment> \<open>0x63: ld h,e\<close>
    \<lparr>pip = 0x0000000000000002, step = 0x00A0\<rparr>, \<comment> \<open>0x64: ld h,h\<close>
    \<lparr>pip = 0x0000000000000002, step = 0x00A1\<rparr>, \<comment> \<open>0x65: ld h,l\<close>
    \<lparr>pip = 0x0000000400000016, step = 0x00A2\<rparr>, \<comment> \<open>0x66: ld h,(hl)\<close>
    \<lparr>pip = 0x0000000000000002, step = 0x00A5\<rparr>, \<comment> \<open>0x67: ld h,a\<close>
    \<lparr>pip = 0x0000000000000002, step = 0x00A6\<rparr>, \<comment> \<open>0x68: ld l,b\<close>
    \<lparr>pip = 0x0000000000000002, step = 0x00A7\<rparr>, \<comment> \<open>0x69: ld l,c\<close>
    \<lparr>pip = 0x0000000000000002, step = 0x00A8\<rparr>, \<comment> \<open>0x6A: ld l,d\<close>
    \<lparr>pip = 0x0000000000000002, step = 0x00A9\<rparr>, \<comment> \<open>0x6B: ld l,e\<close>
    \<lparr>pip = 0x0000000000000002, step = 0x00AA\<rparr>, \<comment> \<open>0x6C: ld l,h\<close>
    \<lparr>pip = 0x0000000000000002, step = 0x00AB\<rparr>, \<comment> \<open>0x6D: ld l,l\<close>
    \<lparr>pip = 0x0000000400000016, step = 0x00AC\<rparr>, \<comment> \<open>0x6E: ld l,(hl)\<close>
    \<lparr>pip = 0x0000000000000002, step = 0x00AF\<rparr>, \<comment> \<open>0x6F: ld l,a\<close>
    \<lparr>pip = 0x0000000400000014, step = 0x00B0\<rparr>, \<comment> \<open>0x70: ld (hl),b\<close>
    \<lparr>pip = 0x0000000400000014, step = 0x00B2\<rparr>, \<comment> \<open>0x71: ld (hl),c\<close>
    \<lparr>pip = 0x0000000400000014, step = 0x00B4\<rparr>, \<comment> \<open>0x72: ld (hl),d\<close>
    \<lparr>pip = 0x0000000400000014, step = 0x00B6\<rparr>, \<comment> \<open>0x73: ld (hl),e\<close>
    \<lparr>pip = 0x0000000400000014, step = 0x00B8\<rparr>, \<comment> \<open>0x74: ld (hl),h\<close>
    \<lparr>pip = 0x0000000400000014, step = 0x00BA\<rparr>, \<comment> \<open>0x75: ld (hl),l\<close>
    \<lparr>pip = 0x0000000000000002, step = 0x00BC\<rparr>, \<comment> \<open>0x76: halt\<close>
    \<lparr>pip = 0x0000000400000014, step = 0x00BD\<rparr>, \<comment> \<open>0x77: ld (hl),a\<close>
    \<lparr>pip = 0x0000000000000002, step = 0x00BF\<rparr>, \<comment> \<open>0x78: ld a,b\<close>
    \<lparr>pip = 0x0000000000000002, step = 0x00C0\<rparr>, \<comment> \<open>0x79: ld a,c\<close>
    \<lparr>pip = 0x0000000000000002, step = 0x00C1\<rparr>, \<comment> \<open>0x7A: ld a,d\<close>
    \<lparr>pip = 0x0000000000000002, step = 0x00C2\<rparr>, \<comment> \<open>0x7B: ld a,e\<close>
    \<lparr>pip = 0x0000000000000002, step = 0x00C3\<rparr>, \<comment> \<open>0x7C: ld a,h\<close>
    \<lparr>pip = 0x0000000000000002, step = 0x00C4\<rparr>, \<comment> \<open>0x7D: ld a,l\<close>
    \<lparr>pip = 0x0000000400000016, step = 0x00C5\<rparr>, \<comment> \<open>0x7E: ld a,(hl)\<close>
    \<lparr>pip = 0x0000000000000002, step = 0x00C8\<rparr>, \<comment> \<open>0x7F: ld a,a\<close>
    \<lparr>pip = 0x0000000000000002, step = 0x00C9\<rparr>, \<comment> \<open>0x80: add b\<close>
    \<lparr>pip = 0x0000000000000002, step = 0x00CA\<rparr>, \<comment> \<open>0x81: add c\<close>
    \<lparr>pip = 0x0000000000000002, step = 0x00CB\<rparr>, \<comment> \<open>0x82: add d\<close>
    \<lparr>pip = 0x0000000000000002, step = 0x00CC\<rparr>, \<comment> \<open>0x83: add e\<close>
    \<lparr>pip = 0x0000000000000002, step = 0x00CD\<rparr>, \<comment> \<open>0x84: add h\<close>
    \<lparr>pip = 0x0000000000000002, step = 0x00CE\<rparr>, \<comment> \<open>0x85: add l\<close>
    \<lparr>pip = 0x0000000400000016, step = 0x00CF\<rparr>, \<comment> \<open>0x86: add (hl)\<close>
    \<lparr>pip = 0x0000000000000002, step = 0x00D2\<rparr>, \<comment> \<open>0x87: add a\<close>
    \<lparr>pip = 0x0000000000000002, step = 0x00D3\<rparr>, \<comment> \<open>0x88: adc b\<close>
    \<lparr>pip = 0x0000000000000002, step = 0x00D4\<rparr>, \<comment> \<open>0x89: adc c\<close>
    \<lparr>pip = 0x0000000000000002, step = 0x00D5\<rparr>, \<comment> \<open>0x8A: adc d\<close>
    \<lparr>pip = 0x0000000000000002, step = 0x00D6\<rparr>, \<comment> \<open>0x8B: adc e\<close>
    \<lparr>pip = 0x0000000000000002, step = 0x00D7\<rparr>, \<comment> \<open>0x8C: adc h\<close>
    \<lparr>pip = 0x0000000000000002, step = 0x00D8\<rparr>, \<comment> \<open>0x8D: adc l\<close>
    \<lparr>pip = 0x0000000400000016, step = 0x00D9\<rparr>, \<comment> \<open>0x8E: adc (hl)\<close>
    \<lparr>pip = 0x0000000000000002, step = 0x00DC\<rparr>, \<comment> \<open>0x8F: adc a\<close>
    \<lparr>pip = 0x0000000000000002, step = 0x00DD\<rparr>, \<comment> \<open>0x90: sub b\<close>
    \<lparr>pip = 0x0000000000000002, step = 0x00DE\<rparr>, \<comment> \<open>0x91: sub c\<close>
    \<lparr>pip = 0x0000000000000002, step = 0x00DF\<rparr>, \<comment> \<open>0x92: sub d\<close>
    \<lparr>pip = 0x0000000000000002, step = 0x00E0\<rparr>, \<comment> \<open>0x93: sub e\<close>
    \<lparr>pip = 0x0000000000000002, step = 0x00E1\<rparr>, \<comment> \<open>0x94: sub h\<close>
    \<lparr>pip = 0x0000000000000002, step = 0x00E2\<rparr>, \<comment> \<open>0x95: sub l\<close>
    \<lparr>pip = 0x0000000400000016, step = 0x00E3\<rparr>, \<comment> \<open>0x96: sub (hl)\<close>
    \<lparr>pip = 0x0000000000000002, step = 0x00E6\<rparr>, \<comment> \<open>0x97: sub a\<close>
    \<lparr>pip = 0x0000000000000002, step = 0x00E7\<rparr>, \<comment> \<open>0x98: sbc b\<close>
    \<lparr>pip = 0x0000000000000002, step = 0x00E8\<rparr>, \<comment> \<open>0x99: sbc c\<close>
    \<lparr>pip = 0x0000000000000002, step = 0x00E9\<rparr>, \<comment> \<open>0x9A: sbc d\<close>
    \<lparr>pip = 0x0000000000000002, step = 0x00EA\<rparr>, \<comment> \<open>0x9B: sbc e\<close>
    \<lparr>pip = 0x0000000000000002, step = 0x00EB\<rparr>, \<comment> \<open>0x9C: sbc h\<close>
    \<lparr>pip = 0x0000000000000002, step = 0x00EC\<rparr>, \<comment> \<open>0x9D: sbc l\<close>
    \<lparr>pip = 0x0000000400000016, step = 0x00ED\<rparr>, \<comment> \<open>0x9E: sbc (hl)\<close>
    \<lparr>pip = 0x0000000000000002, step = 0x00F0\<rparr>, \<comment> \<open>0x9F: sbc a\<close>
    \<lparr>pip = 0x0000000000000002, step = 0x00F1\<rparr>, \<comment> \<open>0xA0: and b\<close>
    \<lparr>pip = 0x0000000000000002, step = 0x00F2\<rparr>, \<comment> \<open>0xA1: and c\<close>
    \<lparr>pip = 0x0000000000000002, step = 0x00F3\<rparr>, \<comment> \<open>0xA2: and d\<close>
    \<lparr>pip = 0x0000000000000002, step = 0x00F4\<rparr>, \<comment> \<open>0xA3: and e\<close>
    \<lparr>pip = 0x0000000000000002, step = 0x00F5\<rparr>, \<comment> \<open>0xA4: and h\<close>
    \<lparr>pip = 0x0000000000000002, step = 0x00F6\<rparr>, \<comment> \<open>0xA5: and l\<close>
    \<lparr>pip = 0x0000000400000016, step = 0x00F7\<rparr>, \<comment> \<open>0xA6: and (hl)\<close>
    \<lparr>pip = 0x0000000000000002, step = 0x00FA\<rparr>, \<comment> \<open>0xA7: and a\<close>
    \<lparr>pip = 0x0000000000000002, step = 0x00FB\<rparr>, \<comment> \<open>0xA8: xor b\<close>
    \<lparr>pip = 0x0000000000000002, step = 0x00FC\<rparr>, \<comment> \<open>0xA9: xor c\<close>
    \<lparr>pip = 0x0000000000000002, step = 0x00FD\<rparr>, \<comment> \<open>0xAA: xor d\<close>
    \<lparr>pip = 0x0000000000000002, step = 0x00FE\<rparr>, \<comment> \<open>0xAB: xor e\<close>
    \<lparr>pip = 0x0000000000000002, step = 0x00FF\<rparr>, \<comment> \<open>0xAC: xor h\<close>
    \<lparr>pip = 0x0000000000000002, step = 0x0100\<rparr>, \<comment> \<open>0xAD: xor l\<close>
    \<lparr>pip = 0x0000000400000016, step = 0x0101\<rparr>, \<comment> \<open>0xAE: xor (hl)\<close>
    \<lparr>pip = 0x0000000000000002, step = 0x0104\<rparr>, \<comment> \<open>0xAF: xor a\<close>
    \<lparr>pip = 0x0000000000000002, step = 0x0105\<rparr>, \<comment> \<open>0xB0: or b\<close>
    \<lparr>pip = 0x0000000000000002, step = 0x0106\<rparr>, \<comment> \<open>0xB1: or c\<close>
    \<lparr>pip = 0x0000000000000002, step = 0x0107\<rparr>, \<comment> \<open>0xB2: or d\<close>
    \<lparr>pip = 0x0000000000000002, step = 0x0108\<rparr>, \<comment> \<open>0xB3: or e\<close>
    \<lparr>pip = 0x0000000000000002, step = 0x0109\<rparr>, \<comment> \<open>0xB4: or h\<close>
    \<lparr>pip = 0x0000000000000002, step = 0x010A\<rparr>, \<comment> \<open>0xB5: or l\<close>
    \<lparr>pip = 0x0000000400000016, step = 0x010B\<rparr>, \<comment> \<open>0xB6: or (hl)\<close>
    \<lparr>pip = 0x0000000000000002, step = 0x010E\<rparr>, \<comment> \<open>0xB7: or a\<close>
    \<lparr>pip = 0x0000000000000002, step = 0x010F\<rparr>, \<comment> \<open>0xB8: cp b\<close>
    \<lparr>pip = 0x0000000000000002, step = 0x0110\<rparr>, \<comment> \<open>0xB9: cp c\<close>
    \<lparr>pip = 0x0000000000000002, step = 0x0111\<rparr>, \<comment> \<open>0xBA: cp d\<close>
    \<lparr>pip = 0x0000000000000002, step = 0x0112\<rparr>, \<comment> \<open>0xBB: cp e\<close>
    \<lparr>pip = 0x0000000000000002, step = 0x0113\<rparr>, \<comment> \<open>0xBC: cp h\<close>
    \<lparr>pip = 0x0000000000000002, step = 0x0114\<rparr>, \<comment> \<open>0xBD: cp l\<close>
    \<lparr>pip = 0x0000000400000016, step = 0x0115\<rparr>, \<comment> \<open>0xBE: cp (hl)\<close>
    \<lparr>pip = 0x0000000000000002, step = 0x0118\<rparr>, \<comment> \<open>0xBF: cp a\<close>
    \<lparr>pip = 0x0000000000000002, step = 0x0119\<rparr>, \<comment> \<open>0xC0: ret nz\<close>
    \<lparr>pip = 0x0000000000000002, step = 0x011A\<rparr>, \<comment> \<open>0xC1: pop bc2\<close>
    \<lparr>pip = 0x0000000000000002, step = 0x011B\<rparr>, \<comment> \<open>0xC2: jp nz,nn\<close>
    \<lparr>pip = 0x0000000000000002, step = 0x011C\<rparr>, \<comment> \<open>0xC3: jp nn\<close>
    \<lparr>pip = 0x0000000000000002, step = 0x011D\<rparr>, \<comment> \<open>0xC4: call nz,nn\<close>
    \<lparr>pip = 0x0000000000000002, step = 0x011E\<rparr>, \<comment> \<open>0xC5: push bc2\<close>
    \<lparr>pip = 0x0000000000000002, step = 0x011F\<rparr>, \<comment> \<open>0xC6: add n\<close>
    \<lparr>pip = 0x0000000000000002, step = 0x0120\<rparr>, \<comment> \<open>0xC7: rst 0h\<close>
    \<lparr>pip = 0x0000000000000002, step = 0x0121\<rparr>, \<comment> \<open>0xC8: ret z\<close>
    \<lparr>pip = 0x0000000000000002, step = 0x0122\<rparr>, \<comment> \<open>0xC9: ret\<close>
    \<lparr>pip = 0x0000000000000002, step = 0x0123\<rparr>, \<comment> \<open>0xCA: jp z,nn\<close>
    \<lparr>pip = 0x0000000000000002, step = 0x0124\<rparr>, \<comment> \<open>0xCB: cb prefix\<close>
    \<lparr>pip = 0x0000000000000002, step = 0x0125\<rparr>, \<comment> \<open>0xCC: call z,nn\<close>
    \<lparr>pip = 0x0000000000000002, step = 0x0126\<rparr>, \<comment> \<open>0xCD: call nn\<close>
    \<lparr>pip = 0x0000000000000002, step = 0x0127\<rparr>, \<comment> \<open>0xCE: adc n\<close>
    \<lparr>pip = 0x0000000000000002, step = 0x0128\<rparr>, \<comment> \<open>0xCF: rst 8h\<close>
    \<lparr>pip = 0x0000000000000002, step = 0x0129\<rparr>, \<comment> \<open>0xD0: ret nc\<close>
    \<lparr>pip = 0x0000000000000002, step = 0x012A\<rparr>, \<comment> \<open>0xD1: pop de2\<close>
    \<lparr>pip = 0x0000000000000002, step = 0x012B\<rparr>, \<comment> \<open>0xD2: jp nc,nn\<close>
    \<lparr>pip = 0x0000000000000002, step = 0x012C\<rparr>, \<comment> \<open>0xD3: out (n),a\<close>
    \<lparr>pip = 0x0000000000000002, step = 0x012D\<rparr>, \<comment> \<open>0xD4: call nc,nn\<close>
    \<lparr>pip = 0x0000000000000002, step = 0x012E\<rparr>, \<comment> \<open>0xD5: push de2\<close>
    \<lparr>pip = 0x0000000000000002, step = 0x012F\<rparr>, \<comment> \<open>0xD6: sub n\<close>
    \<lparr>pip = 0x0000000000000002, step = 0x0130\<rparr>, \<comment> \<open>0xD7: rst 10h\<close>
    \<lparr>pip = 0x0000000000000002, step = 0x0131\<rparr>, \<comment> \<open>0xD8: ret c\<close>
    \<lparr>pip = 0x0000000000000002, step = 0x0132\<rparr>, \<comment> \<open>0xD9: exx\<close>
    \<lparr>pip = 0x0000000000000002, step = 0x0133\<rparr>, \<comment> \<open>0xDA: jp c,nn\<close>
    \<lparr>pip = 0x0000000000000002, step = 0x0134\<rparr>, \<comment> \<open>0xDB: in a,(n)\<close>
    \<lparr>pip = 0x0000000000000002, step = 0x0135\<rparr>, \<comment> \<open>0xDC: call c,nn\<close>
    \<lparr>pip = 0x0000000000000002, step = 0x0136\<rparr>, \<comment> \<open>0xDD: dd prefix\<close>
    \<lparr>pip = 0x0000000000000002, step = 0x0137\<rparr>, \<comment> \<open>0xDE: sbc n\<close>
    \<lparr>pip = 0x0000000000000002, step = 0x0138\<rparr>, \<comment> \<open>0xDF: rst 18h\<close>
    \<lparr>pip = 0x0000000000000002, step = 0x0139\<rparr>, \<comment> \<open>0xE0: ret po\<close>
    \<lparr>pip = 0x0000000000000002, step = 0x013A\<rparr>, \<comment> \<open>0xE1: pop hl2\<close>
    \<lparr>pip = 0x0000000000000002, step = 0x013B\<rparr>, \<comment> \<open>0xE2: jp po,nn\<close>
    \<lparr>pip = 0x0000000000000002, step = 0x013C\<rparr>, \<comment> \<open>0xE3: ex (sp),hl\<close>
    \<lparr>pip = 0x0000000000000002, step = 0x013D\<rparr>, \<comment> \<open>0xE4: call po,nn\<close>
    \<lparr>pip = 0x0000000000000002, step = 0x013E\<rparr>, \<comment> \<open>0xE5: push hl2\<close>
    \<lparr>pip = 0x0000000000000002, step = 0x013F\<rparr>, \<comment> \<open>0xE6: and n\<close>
    \<lparr>pip = 0x0000000000000002, step = 0x0140\<rparr>, \<comment> \<open>0xE7: rst 20h\<close>
    \<lparr>pip = 0x0000000000000002, step = 0x0141\<rparr>, \<comment> \<open>0xE8: ret pe\<close>
    \<lparr>pip = 0x0000000000000002, step = 0x0142\<rparr>, \<comment> \<open>0xE9: jp hl\<close>
    \<lparr>pip = 0x0000000000000002, step = 0x0143\<rparr>, \<comment> \<open>0xEA: jp pe,nn\<close>
    \<lparr>pip = 0x0000000000000002, step = 0x0144\<rparr>, \<comment> \<open>0xEB: ex de,hl\<close>
    \<lparr>pip = 0x0000000000000002, step = 0x0145\<rparr>, \<comment> \<open>0xEC: call pe,nn\<close>
    \<lparr>pip = 0x0000000000000002, step = 0x0146\<rparr>, \<comment> \<open>0xED: ed prefix\<close>
    \<lparr>pip = 0x0000000000000002, step = 0x0147\<rparr>, \<comment> \<open>0xEE: xor n\<close>
    \<lparr>pip = 0x0000000000000002, step = 0x0148\<rparr>, \<comment> \<open>0xEF: rst 28h\<close>
    \<lparr>pip = 0x0000000000000002, step = 0x0149\<rparr>, \<comment> \<open>0xF0: ret p\<close>
    \<lparr>pip = 0x0000000000000002, step = 0x014A\<rparr>, \<comment> \<open>0xF1: pop sp2\<close>
    \<lparr>pip = 0x0000000000000002, step = 0x014B\<rparr>, \<comment> \<open>0xF2: jp p,nn\<close>
    \<lparr>pip = 0x0000000000000002, step = 0x014C\<rparr>, \<comment> \<open>0xF3: di\<close>
    \<lparr>pip = 0x0000000000000002, step = 0x014D\<rparr>, \<comment> \<open>0xF4: call p,nn\<close>
    \<lparr>pip = 0x0000000000000002, step = 0x014E\<rparr>, \<comment> \<open>0xF5: push sp2\<close>
    \<lparr>pip = 0x0000000000000002, step = 0x014F\<rparr>, \<comment> \<open>0xF6: or n\<close>
    \<lparr>pip = 0x0000000000000002, step = 0x0150\<rparr>, \<comment> \<open>0xF7: rst 30h\<close>
    \<lparr>pip = 0x0000000000000002, step = 0x0151\<rparr>, \<comment> \<open>0xF8: ret m\<close>
    \<lparr>pip = 0x0000000000000002, step = 0x0152\<rparr>, \<comment> \<open>0xF9: ld sp,hl\<close>
    \<lparr>pip = 0x0000000000000002, step = 0x0153\<rparr>, \<comment> \<open>0xFA: jp m,nn\<close>
    \<lparr>pip = 0x0000000000000002, step = 0x0154\<rparr>, \<comment> \<open>0xFB: ei\<close>
    \<lparr>pip = 0x0000000000000002, step = 0x0155\<rparr>, \<comment> \<open>0xFC: call m,nn\<close>
    \<lparr>pip = 0x0000000000000002, step = 0x0156\<rparr>, \<comment> \<open>0xFD: fd prefix\<close>
    \<lparr>pip = 0x0000000000000002, step = 0x0157\<rparr>, \<comment> \<open>0xFE: cp n\<close>
    \<lparr>pip = 0x0000000000000002, step = 0x0158\<rparr> \<comment> \<open>0xFF: rst 38h\<close>
  ]"

section \<open>Tick\<close>

text \<open>
  The \<open>switch\<close> of \<open>z80_tick\<close>: one entry per \<open>case\<close> label, in the order of the
  source, each body a function from the CPU and the pin word to both after the body.
  The switch has no \<open>default\<close>, so a step without a label does nothing.
\<close>

definition z80_cases :: "(64 word \<times> (z80_t \<Rightarrow> 64 word \<Rightarrow> z80_t \<times> 64 word)) list" where
  "z80_cases = [
    \<comment> \<open>shared fetch machine cycle for all opcodes\<close>
    (0, \<lambda>cpu p. let cpu = cpu\<lparr>ir := z80_get_db p\<rparr> in (cpu, p)),
    (1, \<lambda>cpu p. let cpu = cpu\<lparr>op := z80_opstate_table ! unat (ir cpu)\<rparr> in z80_refresh cpu p),
    \<comment> \<open>0x00: nop\<close>
    (0x0002, \<lambda>cpu p. z80_fetch cpu p),
    \<comment> \<open>0x01: ld bc,nn\<close>
    (0x0003, \<lambda>cpu p. let ab = pc cpu; cpu = cpu\<lparr>pc := pc cpu + 1\<rparr>; p = mread p ab in (cpu, p)),
    (0x0004, \<lambda>cpu p. let cpu = set_c cpu (z80_get_db p) in (cpu, p)),
    (0x0005, \<lambda>cpu p. let ab = pc cpu; cpu = cpu\<lparr>pc := pc cpu + 1\<rparr>; p = mread p ab in (cpu, p)),
    (0x0006, \<lambda>cpu p. let cpu = set_b cpu (z80_get_db p) in (cpu, p)),
    (0x0007, \<lambda>cpu p. z80_fetch cpu p),
    \<comment> \<open>0x02: ld (bc),a\<close>
    (0x0008, \<lambda>cpu p. let p = mwrite p (bc cpu) (reg_a cpu); cpu = set_wzl cpu (reg_c cpu + 1); cpu = set_wzh cpu (reg_a cpu) in (cpu, p)),
    (0x0009, \<lambda>cpu p. z80_fetch cpu p),
    \<comment> \<open>0x03: inc bc\<close>
    (0x000A, \<lambda>cpu p. z80_fetch cpu p),
    \<comment> \<open>0x04: inc b\<close>
    (0x000B, \<lambda>cpu p. z80_fetch cpu p),
    \<comment> \<open>0x05: dec b\<close>
    (0x000C, \<lambda>cpu p. z80_fetch cpu p),
    \<comment> \<open>0x06: ld b,n\<close>
    (0x000D, \<lambda>cpu p. let ab = pc cpu; cpu = cpu\<lparr>pc := pc cpu + 1\<rparr>; p = mread p ab in (cpu, p)),
    (0x000E, \<lambda>cpu p. let cpu = set_b cpu (z80_get_db p) in (cpu, p)),
    (0x000F, \<lambda>cpu p. z80_fetch cpu p),
    \<comment> \<open>0x07: rlca\<close>
    (0x0010, \<lambda>cpu p. z80_fetch cpu p),
    \<comment> \<open>0x08: ex af,af'\<close>
    (0x0011, \<lambda>cpu p. z80_fetch cpu p),
    \<comment> \<open>0x09: add hl,bc\<close>
    (0x0012, \<lambda>cpu p. z80_fetch cpu p),
    \<comment> \<open>0x0A: ld a,(bc)\<close>
    (0x0013, \<lambda>cpu p. let p = mread p (bc cpu); cpu = cpu\<lparr>wz := bc cpu + 1\<rparr> in (cpu, p)),
    (0x0014, \<lambda>cpu p. let cpu = set_a cpu (z80_get_db p) in (cpu, p)),
    (0x0015, \<lambda>cpu p. z80_fetch cpu p),
    \<comment> \<open>0x0B: dec bc\<close>
    (0x0016, \<lambda>cpu p. z80_fetch cpu p),
    \<comment> \<open>0x0C: inc c\<close>
    (0x0017, \<lambda>cpu p. z80_fetch cpu p),
    \<comment> \<open>0x0D: dec c\<close>
    (0x0018, \<lambda>cpu p. z80_fetch cpu p),
    \<comment> \<open>0x0E: ld c,n\<close>
    (0x0019, \<lambda>cpu p. let ab = pc cpu; cpu = cpu\<lparr>pc := pc cpu + 1\<rparr>; p = mread p ab in (cpu, p)),
    (0x001A, \<lambda>cpu p. let cpu = set_c cpu (z80_get_db p) in (cpu, p)),
    (0x001B, \<lambda>cpu p. z80_fetch cpu p),
    \<comment> \<open>0x0F: rrca\<close>
    (0x001C, \<lambda>cpu p. z80_fetch cpu p),
    \<comment> \<open>0x10: djnz d\<close>
    (0x001D, \<lambda>cpu p. z80_fetch cpu p),
    \<comment> \<open>0x11: ld de,nn\<close>
    (0x001E, \<lambda>cpu p. let ab = pc cpu; cpu = cpu\<lparr>pc := pc cpu + 1\<rparr>; p = mread p ab in (cpu, p)),
    (0x001F, \<lambda>cpu p. let cpu = set_e cpu (z80_get_db p) in (cpu, p)),
    (0x0020, \<lambda>cpu p. let ab = pc cpu; cpu = cpu\<lparr>pc := pc cpu + 1\<rparr>; p = mread p ab in (cpu, p)),
    (0x0021, \<lambda>cpu p. let cpu = set_d cpu (z80_get_db p) in (cpu, p)),
    (0x0022, \<lambda>cpu p. z80_fetch cpu p),
    \<comment> \<open>0x12: ld (de),a\<close>
    (0x0023, \<lambda>cpu p. let p = mwrite p (de cpu) (reg_a cpu); cpu = set_wzl cpu (reg_e cpu + 1); cpu = set_wzh cpu (reg_a cpu) in (cpu, p)),
    (0x0024, \<lambda>cpu p. z80_fetch cpu p),
    \<comment> \<open>0x13: inc de\<close>
    (0x0025, \<lambda>cpu p. z80_fetch cpu p),
    \<comment> \<open>0x14: inc d\<close>
    (0x0026, \<lambda>cpu p. z80_fetch cpu p),
    \<comment> \<open>0x15: dec d\<close>
    (0x0027, \<lambda>cpu p. z80_fetch cpu p),
    \<comment> \<open>0x16: ld d,n\<close>
    (0x0028, \<lambda>cpu p. let ab = pc cpu; cpu = cpu\<lparr>pc := pc cpu + 1\<rparr>; p = mread p ab in (cpu, p)),
    (0x0029, \<lambda>cpu p. let cpu = set_d cpu (z80_get_db p) in (cpu, p)),
    (0x002A, \<lambda>cpu p. z80_fetch cpu p),
    \<comment> \<open>0x17: rla\<close>
    (0x002B, \<lambda>cpu p. z80_fetch cpu p),
    \<comment> \<open>0x18: jr d\<close>
    (0x002C, \<lambda>cpu p. z80_fetch cpu p),
    \<comment> \<open>0x19: add hl,de\<close>
    (0x002D, \<lambda>cpu p. z80_fetch cpu p),
    \<comment> \<open>0x1A: ld a,(de)\<close>
    (0x002E, \<lambda>cpu p. let p = mread p (de cpu); cpu = cpu\<lparr>wz := de cpu + 1\<rparr> in (cpu, p)),
    (0x002F, \<lambda>cpu p. let cpu = set_a cpu (z80_get_db p) in (cpu, p)),
    (0x0030, \<lambda>cpu p. z80_fetch cpu p),
    \<comment> \<open>0x1B: dec de\<close>
    (0x0031, \<lambda>cpu p. z80_fetch cpu p),
    \<comment> \<open>0x1C: inc e\<close>
    (0x0032, \<lambda>cpu p. z80_fetch cpu p),
    \<comment> \<open>0x1D: dec e\<close>
    (0x0033, \<lambda>cpu p. z80_fetch cpu p),
    \<comment> \<open>0x1E: ld e,n\<close>
    (0x0034, \<lambda>cpu p. let ab = pc cpu; cpu = cpu\<lparr>pc := pc cpu + 1\<rparr>; p = mread p ab in (cpu, p)),
    (0x0035, \<lambda>cpu p. let cpu = set_e cpu (z80_get_db p) in (cpu, p)),
    (0x0036, \<lambda>cpu p. z80_fetch cpu p),
    \<comment> \<open>0x1F: rra\<close>
    (0x0037, \<lambda>cpu p. z80_fetch cpu p),
    \<comment> \<open>0x20: jr nz,d\<close>
    (0x0038, \<lambda>cpu p. z80_fetch cpu p),
    \<comment> \<open>0x21: ld hl,nn\<close>
    (0x0039, \<lambda>cpu p. let ab = pc cpu; cpu = cpu\<lparr>pc := pc cpu + 1\<rparr>; p = mread p ab in (cpu, p)),
    (0x003A, \<lambda>cpu p. let cpu = set_l cpu (z80_get_db p) in (cpu, p)),
    (0x003B, \<lambda>cpu p. let ab = pc cpu; cpu = cpu\<lparr>pc := pc cpu + 1\<rparr>; p = mread p ab in (cpu, p)),
    (0x003C, \<lambda>cpu p. let cpu = set_h cpu (z80_get_db p) in (cpu, p)),
    (0x003D, \<lambda>cpu p. z80_fetch cpu p),
    \<comment> \<open>0x22: ld (nn),hl\<close>
    (0x003E, \<lambda>cpu p. z80_fetch cpu p),
    \<comment> \<open>0x23: inc hl\<close>
    (0x003F, \<lambda>cpu p. z80_fetch cpu p),
    \<comment> \<open>0x24: inc h\<close>
    (0x0040, \<lambda>cpu p. z80_fetch cpu p),
    \<comment> \<open>0x25: dec h\<close>
    (0x0041, \<lambda>cpu p. z80_fetch cpu p),
    \<comment> \<open>0x26: ld h,n\<close>
    (0x0042, \<lambda>cpu p. let ab = pc cpu; cpu = cpu\<lparr>pc := pc cpu + 1\<rparr>; p = mread p ab in (cpu, p)),
    (0x0043, \<lambda>cpu p. let cpu = set_h cpu (z80_get_db p) in (cpu, p)),
    (0x0044, \<lambda>cpu p. z80_fetch cpu p),
    \<comment> \<open>0x27: daa\<close>
    (0x0045, \<lambda>cpu p. z80_fetch cpu p),
    \<comment> \<open>0x28: jr z,d\<close>
    (0x0046, \<lambda>cpu p. z80_fetch cpu p),
    \<comment> \<open>0x29: add hl,hl\<close>
    (0x0047, \<lambda>cpu p. z80_fetch cpu p),
    \<comment> \<open>0x2A: ld hl,(nn)\<close>
    (0x0048, \<lambda>cpu p. z80_fetch cpu p),
    \<comment> \<open>0x2B: dec hl\<close>
    (0x0049, \<lambda>cpu p. z80_fetch cpu p),
    \<comment> \<open>0x2C: inc l\<close>
    (0x004A, \<lambda>cpu p. z80_fetch cpu p),
    \<comment> \<open>0x2D: dec l\<close>
    (0x004B, \<lambda>cpu p. z80_fetch cpu p),
    \<comment> \<open>0x2E: ld l,n\<close>
    (0x004C, \<lambda>cpu p. let ab = pc cpu; cpu = cpu\<lparr>pc := pc cpu + 1\<rparr>; p = mread p ab in (cpu, p)),
    (0x004D, \<lambda>cpu p. let cpu = set_l cpu (z80_get_db p) in (cpu, p)),
    (0x004E, \<lambda>cpu p. z80_fetch cpu p),
    \<comment> \<open>0x2F: cpl\<close>
    (0x004F, \<lambda>cpu p. z80_fetch cpu p),
    \<comment> \<open>0x30: jr nc,d\<close>
    (0x0050, \<lambda>cpu p. z80_fetch cpu p),
    \<comment> \<open>0x31: ld sp,nn\<close>
    (0x0051, \<lambda>cpu p. let ab = pc cpu; cpu = cpu\<lparr>pc := pc cpu + 1\<rparr>; p = mread p ab in (cpu, p)),
    (0x0052, \<lambda>cpu p. let cpu = set_spl cpu (z80_get_db p) in (cpu, p)),
    (0x0053, \<lambda>cpu p. let ab = pc cpu; cpu = cpu\<lparr>pc := pc cpu + 1\<rparr>; p = mread p ab in (cpu, p)),
    (0x0054, \<lambda>cpu p. let cpu = set_sph cpu (z80_get_db p) in (cpu, p)),
    (0x0055, \<lambda>cpu p. z80_fetch cpu p),
    \<comment> \<open>0x32: ld (nn),a\<close>
    (0x0056, \<lambda>cpu p. let ab = pc cpu; cpu = cpu\<lparr>pc := pc cpu + 1\<rparr>; p = mread p ab in (cpu, p)),
    (0x0057, \<lambda>cpu p. let cpu = set_wzl cpu (z80_get_db p) in (cpu, p)),
    (0x0058, \<lambda>cpu p. let ab = pc cpu; cpu = cpu\<lparr>pc := pc cpu + 1\<rparr>; p = mread p ab in (cpu, p)),
    (0x0059, \<lambda>cpu p. let cpu = set_wzh cpu (z80_get_db p) in (cpu, p)),
    (0x005A, \<lambda>cpu p. let ab = wz cpu; cpu = cpu\<lparr>wz := wz cpu + 1\<rparr>; p = mwrite p ab (reg_a cpu); cpu = set_wzh cpu (reg_a cpu) in (cpu, p)),
    (0x005B, \<lambda>cpu p. z80_fetch cpu p),
    \<comment> \<open>0x33: inc sp\<close>
    (0x005C, \<lambda>cpu p. z80_fetch cpu p),
    \<comment> \<open>0x34: inc (hl)\<close>
    (0x005D, \<lambda>cpu p. z80_fetch cpu p),
    \<comment> \<open>0x35: dec (hl)\<close>
    (0x005E, \<lambda>cpu p. z80_fetch cpu p),
    \<comment> \<open>0x36: ld (HL),n\<close>
    (0x005F, \<lambda>cpu p. let ab = pc cpu; cpu = cpu\<lparr>pc := pc cpu + 1\<rparr>; p = mread p ab in (cpu, p)),
    (0x0060, \<lambda>cpu p. let cpu = cpu\<lparr>dlatch := z80_get_db p\<rparr> in (cpu, p)),
    (0x0061, \<lambda>cpu p. let p = mwrite p (hl cpu) (dlatch cpu) in (cpu, p)),
    (0x0062, \<lambda>cpu p. z80_fetch cpu p),
    \<comment> \<open>0x37: scf\<close>
    (0x0063, \<lambda>cpu p. z80_fetch cpu p),
    \<comment> \<open>0x38: jr c,d\<close>
    (0x0064, \<lambda>cpu p. z80_fetch cpu p),
    \<comment> \<open>0x39: add hl,sp\<close>
    (0x0065, \<lambda>cpu p. z80_fetch cpu p),
    \<comment> \<open>0x3A: ld a,(nn)\<close>
    (0x0066, \<lambda>cpu p. let ab = pc cpu; cpu = cpu\<lparr>pc := pc cpu + 1\<rparr>; p = mread p ab in (cpu, p)),
    (0x0067, \<lambda>cpu p. let cpu = set_wzl cpu (z80_get_db p) in (cpu, p)),
    (0x0068, \<lambda>cpu p. let ab = pc cpu; cpu = cpu\<lparr>pc := pc cpu + 1\<rparr>; p = mread p ab in (cpu, p)),
    (0x0069, \<lambda>cpu p. let cpu = set_wzh cpu (z80_get_db p) in (cpu, p)),
    (0x006A, \<lambda>cpu p. let ab = wz cpu; cpu = cpu\<lparr>wz := wz cpu + 1\<rparr>; p = mread p ab in (cpu, p)),
    (0x006B, \<lambda>cpu p. let cpu = set_a cpu (z80_get_db p) in (cpu, p)),
    (0x006C, \<lambda>cpu p. z80_fetch cpu p),
    \<comment> \<open>0x3B: dec sp\<close>
    (0x006D, \<lambda>cpu p. z80_fetch cpu p),
    \<comment> \<open>0x3C: inc a\<close>
    (0x006E, \<lambda>cpu p. z80_fetch cpu p),
    \<comment> \<open>0x3D: dec a\<close>
    (0x006F, \<lambda>cpu p. z80_fetch cpu p),
    \<comment> \<open>0x3E: ld a,n\<close>
    (0x0070, \<lambda>cpu p. let ab = pc cpu; cpu = cpu\<lparr>pc := pc cpu + 1\<rparr>; p = mread p ab in (cpu, p)),
    (0x0071, \<lambda>cpu p. let cpu = set_a cpu (z80_get_db p) in (cpu, p)),
    (0x0072, \<lambda>cpu p. z80_fetch cpu p),
    \<comment> \<open>0x3F: ccf\<close>
    (0x0073, \<lambda>cpu p. z80_fetch cpu p),
    \<comment> \<open>0x40: ld b,b\<close>
    (0x0074, \<lambda>cpu p. let cpu = set_b cpu (reg_b cpu) in z80_fetch cpu p),
    \<comment> \<open>0x41: ld b,c\<close>
    (0x0075, \<lambda>cpu p. let cpu = set_b cpu (reg_c cpu) in z80_fetch cpu p),
    \<comment> \<open>0x42: ld b,d\<close>
    (0x0076, \<lambda>cpu p. let cpu = set_b cpu (reg_d cpu) in z80_fetch cpu p),
    \<comment> \<open>0x43: ld b,e\<close>
    (0x0077, \<lambda>cpu p. let cpu = set_b cpu (reg_e cpu) in z80_fetch cpu p),
    \<comment> \<open>0x44: ld b,h\<close>
    (0x0078, \<lambda>cpu p. let cpu = set_b cpu (reg_h cpu) in z80_fetch cpu p),
    \<comment> \<open>0x45: ld b,l\<close>
    (0x0079, \<lambda>cpu p. let cpu = set_b cpu (reg_l cpu) in z80_fetch cpu p),
    \<comment> \<open>0x46: ld b,(hl)\<close>
    (0x007A, \<lambda>cpu p. let p = mread p (hl cpu) in (cpu, p)),
    (0x007B, \<lambda>cpu p. let cpu = set_b cpu (z80_get_db p) in (cpu, p)),
    (0x007C, \<lambda>cpu p. z80_fetch cpu p),
    \<comment> \<open>0x47: ld b,a\<close>
    (0x007D, \<lambda>cpu p. let cpu = set_b cpu (reg_a cpu) in z80_fetch cpu p),
    \<comment> \<open>0x48: ld c,b\<close>
    (0x007E, \<lambda>cpu p. let cpu = set_c cpu (reg_b cpu) in z80_fetch cpu p),
    \<comment> \<open>0x49: ld c,c\<close>
    (0x007F, \<lambda>cpu p. let cpu = set_c cpu (reg_c cpu) in z80_fetch cpu p),
    \<comment> \<open>0x4A: ld c,d\<close>
    (0x0080, \<lambda>cpu p. let cpu = set_c cpu (reg_d cpu) in z80_fetch cpu p),
    \<comment> \<open>0x4B: ld c,e\<close>
    (0x0081, \<lambda>cpu p. let cpu = set_c cpu (reg_e cpu) in z80_fetch cpu p),
    \<comment> \<open>0x4C: ld c,h\<close>
    (0x0082, \<lambda>cpu p. let cpu = set_c cpu (reg_h cpu) in z80_fetch cpu p),
    \<comment> \<open>0x4D: ld c,l\<close>
    (0x0083, \<lambda>cpu p. let cpu = set_c cpu (reg_l cpu) in z80_fetch cpu p),
    \<comment> \<open>0x4E: ld c,(hl)\<close>
    (0x0084, \<lambda>cpu p. let p = mread p (hl cpu) in (cpu, p)),
    (0x0085, \<lambda>cpu p. let cpu = set_c cpu (z80_get_db p) in (cpu, p)),
    (0x0086, \<lambda>cpu p. z80_fetch cpu p),
    \<comment> \<open>0x4F: ld c,a\<close>
    (0x0087, \<lambda>cpu p. let cpu = set_c cpu (reg_a cpu) in z80_fetch cpu p),
    \<comment> \<open>0x50: ld d,b\<close>
    (0x0088, \<lambda>cpu p. let cpu = set_d cpu (reg_b cpu) in z80_fetch cpu p),
    \<comment> \<open>0x51: ld d,c\<close>
    (0x0089, \<lambda>cpu p. let cpu = set_d cpu (reg_c cpu) in z80_fetch cpu p),
    \<comment> \<open>0x52: ld d,d\<close>
    (0x008A, \<lambda>cpu p. let cpu = set_d cpu (reg_d cpu) in z80_fetch cpu p),
    \<comment> \<open>0x53: ld d,e\<close>
    (0x008B, \<lambda>cpu p. let cpu = set_d cpu (reg_e cpu) in z80_fetch cpu p),
    \<comment> \<open>0x54: ld d,h\<close>
    (0x008C, \<lambda>cpu p. let cpu = set_d cpu (reg_h cpu) in z80_fetch cpu p),
    \<comment> \<open>0x55: ld d,l\<close>
    (0x008D, \<lambda>cpu p. let cpu = set_d cpu (reg_l cpu) in z80_fetch cpu p),
    \<comment> \<open>0x56: ld d,(hl)\<close>
    (0x008E, \<lambda>cpu p. let p = mread p (hl cpu) in (cpu, p)),
    (0x008F, \<lambda>cpu p. let cpu = set_d cpu (z80_get_db p) in (cpu, p)),
    (0x0090, \<lambda>cpu p. z80_fetch cpu p),
    \<comment> \<open>0x57: ld d,a\<close>
    (0x0091, \<lambda>cpu p. let cpu = set_d cpu (reg_a cpu) in z80_fetch cpu p),
    \<comment> \<open>0x58: ld e,b\<close>
    (0x0092, \<lambda>cpu p. let cpu = set_e cpu (reg_b cpu) in z80_fetch cpu p),
    \<comment> \<open>0x59: ld e,c\<close>
    (0x0093, \<lambda>cpu p. let cpu = set_e cpu (reg_c cpu) in z80_fetch cpu p),
    \<comment> \<open>0x5A: ld e,d\<close>
    (0x0094, \<lambda>cpu p. let cpu = set_e cpu (reg_d cpu) in z80_fetch cpu p),
    \<comment> \<open>0x5B: ld e,e\<close>
    (0x0095, \<lambda>cpu p. let cpu = set_e cpu (reg_e cpu) in z80_fetch cpu p),
    \<comment> \<open>0x5C: ld e,h\<close>
    (0x0096, \<lambda>cpu p. let cpu = set_e cpu (reg_h cpu) in z80_fetch cpu p),
    \<comment> \<open>0x5D: ld e,l\<close>
    (0x0097, \<lambda>cpu p. let cpu = set_e cpu (reg_l cpu) in z80_fetch cpu p),
    \<comment> \<open>0x5E: ld e,(hl)\<close>
    (0x0098, \<lambda>cpu p. let p = mread p (hl cpu) in (cpu, p)),
    (0x0099, \<lambda>cpu p. let cpu = set_e cpu (z80_get_db p) in (cpu, p)),
    (0x009A, \<lambda>cpu p. z80_fetch cpu p),
    \<comment> \<open>0x5F: ld e,a\<close>
    (0x009B, \<lambda>cpu p. let cpu = set_e cpu (reg_a cpu) in z80_fetch cpu p),
    \<comment> \<open>0x60: ld h,b\<close>
    (0x009C, \<lambda>cpu p. let cpu = set_h cpu (reg_b cpu) in z80_fetch cpu p),
    \<comment> \<open>0x61: ld h,c\<close>
    (0x009D, \<lambda>cpu p. let cpu = set_h cpu (reg_c cpu) in z80_fetch cpu p),
    \<comment> \<open>0x62: ld h,d\<close>
    (0x009E, \<lambda>cpu p. let cpu = set_h cpu (reg_d cpu) in z80_fetch cpu p),
    \<comment> \<open>0x63: ld h,e\<close>
    (0x009F, \<lambda>cpu p. let cpu = set_h cpu (reg_e cpu) in z80_fetch cpu p),
    \<comment> \<open>0x64: ld h,h\<close>
    (0x00A0, \<lambda>cpu p. let cpu = set_h cpu (reg_h cpu) in z80_fetch cpu p),
    \<comment> \<open>0x65: ld h,l\<close>
    (0x00A1, \<lambda>cpu p. let cpu = set_h cpu (reg_l cpu) in z80_fetch cpu p),
    \<comment> \<open>0x66: ld h,(hl)\<close>
    (0x00A2, \<lambda>cpu p. let p = mread p (hl cpu) in (cpu, p)),
    (0x00A3, \<lambda>cpu p. let cpu = set_h cpu (z80_get_db p) in (cpu, p)),
    (0x00A4, \<lambda>cpu p. z80_fetch cpu p),
    \<comment> \<open>0x67: ld h,a\<close>
    (0x00A5, \<lambda>cpu p. let cpu = set_h cpu (reg_a cpu) in z80_fetch cpu p),
    \<comment> \<open>0x68: ld l,b\<close>
    (0x00A6, \<lambda>cpu p. let cpu = set_l cpu (reg_b cpu) in z80_fetch cpu p),
    \<comment> \<open>0x69: ld l,c\<close>
    (0x00A7, \<lambda>cpu p. let cpu = set_l cpu (reg_c cpu) in z80_fetch cpu p),
    \<comment> \<open>0x6A: ld l,d\<close>
    (0x00A8, \<lambda>cpu p. let cpu = set_l cpu (reg_d cpu) in z80_fetch cpu p),
    \<comment> \<open>0x6B: ld l,e\<close>
    (0x00A9, \<lambda>cpu p. let cpu = set_l cpu (reg_e cpu) in z80_fetch cpu p),
    \<comment> \<open>0x6C: ld l,h\<close>
    (0x00AA, \<lambda>cpu p. let cpu = set_l cpu (reg_h cpu) in z80_fetch cpu p),
    \<comment> \<open>0x6D: ld l,l\<close>
    (0x00AB, \<lambda>cpu p. let cpu = set_l cpu (reg_l cpu) in z80_fetch cpu p),
    \<comment> \<open>0x6E: ld l,(hl)\<close>
    (0x00AC, \<lambda>cpu p. let p = mread p (hl cpu) in (cpu, p)),
    (0x00AD, \<lambda>cpu p. let cpu = set_l cpu (z80_get_db p) in (cpu, p)),
    (0x00AE, \<lambda>cpu p. z80_fetch cpu p),
    \<comment> \<open>0x6F: ld l,a\<close>
    (0x00AF, \<lambda>cpu p. let cpu = set_l cpu (reg_a cpu) in z80_fetch cpu p),
    \<comment> \<open>0x70: ld (hl),b\<close>
    (0x00B0, \<lambda>cpu p. let p = mwrite p (hl cpu) (reg_b cpu) in (cpu, p)),
    (0x00B1, \<lambda>cpu p. z80_fetch cpu p),
    \<comment> \<open>0x71: ld (hl),c\<close>
    (0x00B2, \<lambda>cpu p. let p = mwrite p (hl cpu) (reg_c cpu) in (cpu, p)),
    (0x00B3, \<lambda>cpu p. z80_fetch cpu p),
    \<comment> \<open>0x72: ld (hl),d\<close>
    (0x00B4, \<lambda>cpu p. let p = mwrite p (hl cpu) (reg_d cpu) in (cpu, p)),
    (0x00B5, \<lambda>cpu p. z80_fetch cpu p),
    \<comment> \<open>0x73: ld (hl),e\<close>
    (0x00B6, \<lambda>cpu p. let p = mwrite p (hl cpu) (reg_e cpu) in (cpu, p)),
    (0x00B7, \<lambda>cpu p. z80_fetch cpu p),
    \<comment> \<open>0x74: ld (hl),h\<close>
    (0x00B8, \<lambda>cpu p. let p = mwrite p (hl cpu) (reg_h cpu) in (cpu, p)),
    (0x00B9, \<lambda>cpu p. z80_fetch cpu p),
    \<comment> \<open>0x75: ld (hl),l\<close>
    (0x00BA, \<lambda>cpu p. let p = mwrite p (hl cpu) (reg_l cpu) in (cpu, p)),
    (0x00BB, \<lambda>cpu p. z80_fetch cpu p),
    \<comment> \<open>0x76: halt\<close>
    (0x00BC, \<lambda>cpu p. let cpu = z80_halt cpu in z80_fetch cpu p),
    \<comment> \<open>0x77: ld (hl),a\<close>
    (0x00BD, \<lambda>cpu p. let p = mwrite p (hl cpu) (reg_a cpu) in (cpu, p)),
    (0x00BE, \<lambda>cpu p. z80_fetch cpu p),
    \<comment> \<open>0x78: ld a,b\<close>
    (0x00BF, \<lambda>cpu p. let cpu = set_a cpu (reg_b cpu) in z80_fetch cpu p),
    \<comment> \<open>0x79: ld a,c\<close>
    (0x00C0, \<lambda>cpu p. let cpu = set_a cpu (reg_c cpu) in z80_fetch cpu p),
    \<comment> \<open>0x7A: ld a,d\<close>
    (0x00C1, \<lambda>cpu p. let cpu = set_a cpu (reg_d cpu) in z80_fetch cpu p),
    \<comment> \<open>0x7B: ld a,e\<close>
    (0x00C2, \<lambda>cpu p. let cpu = set_a cpu (reg_e cpu) in z80_fetch cpu p),
    \<comment> \<open>0x7C: ld a,h\<close>
    (0x00C3, \<lambda>cpu p. let cpu = set_a cpu (reg_h cpu) in z80_fetch cpu p),
    \<comment> \<open>0x7D: ld a,l\<close>
    (0x00C4, \<lambda>cpu p. let cpu = set_a cpu (reg_l cpu) in z80_fetch cpu p),
    \<comment> \<open>0x7E: ld a,(hl)\<close>
    (0x00C5, \<lambda>cpu p. let p = mread p (hl cpu) in (cpu, p)),
    (0x00C6, \<lambda>cpu p. let cpu = set_a cpu (z80_get_db p) in (cpu, p)),
    (0x00C7, \<lambda>cpu p. z80_fetch cpu p),
    \<comment> \<open>0x7F: ld a,a\<close>
    (0x00C8, \<lambda>cpu p. let cpu = set_a cpu (reg_a cpu) in z80_fetch cpu p),
    \<comment> \<open>0x80: add b\<close>
    (0x00C9, \<lambda>cpu p. let (cpu, res) = z80_add cpu (reg_b cpu); cpu = set_a cpu res in z80_fetch cpu p),
    \<comment> \<open>0x81: add c\<close>
    (0x00CA, \<lambda>cpu p. let (cpu, res) = z80_add cpu (reg_c cpu); cpu = set_a cpu res in z80_fetch cpu p),
    \<comment> \<open>0x82: add d\<close>
    (0x00CB, \<lambda>cpu p. let (cpu, res) = z80_add cpu (reg_d cpu); cpu = set_a cpu res in z80_fetch cpu p),
    \<comment> \<open>0x83: add e\<close>
    (0x00CC, \<lambda>cpu p. let (cpu, res) = z80_add cpu (reg_e cpu); cpu = set_a cpu res in z80_fetch cpu p),
    \<comment> \<open>0x84: add h\<close>
    (0x00CD, \<lambda>cpu p. let (cpu, res) = z80_add cpu (reg_h cpu); cpu = set_a cpu res in z80_fetch cpu p),
    \<comment> \<open>0x85: add l\<close>
    (0x00CE, \<lambda>cpu p. let (cpu, res) = z80_add cpu (reg_l cpu); cpu = set_a cpu res in z80_fetch cpu p),
    \<comment> \<open>0x86: add (hl)\<close>
    (0x00CF, \<lambda>cpu p. let p = mread p (hl cpu) in (cpu, p)),
    (0x00D0, \<lambda>cpu p. let cpu = cpu\<lparr>dlatch := z80_get_db p\<rparr> in (cpu, p)),
    (0x00D1, \<lambda>cpu p. let (cpu, res) = z80_add cpu (dlatch cpu); cpu = set_a cpu res in z80_fetch cpu p),
    \<comment> \<open>0x87: add a\<close>
    (0x00D2, \<lambda>cpu p. let (cpu, res) = z80_add cpu (reg_a cpu); cpu = set_a cpu res in z80_fetch cpu p),
    \<comment> \<open>0x88: adc b\<close>
    (0x00D3, \<lambda>cpu p. let (cpu, res) = z80_adc cpu (reg_b cpu); cpu = set_a cpu res in z80_fetch cpu p),
    \<comment> \<open>0x89: adc c\<close>
    (0x00D4, \<lambda>cpu p. let (cpu, res) = z80_adc cpu (reg_c cpu); cpu = set_a cpu res in z80_fetch cpu p),
    \<comment> \<open>0x8A: adc d\<close>
    (0x00D5, \<lambda>cpu p. let (cpu, res) = z80_adc cpu (reg_d cpu); cpu = set_a cpu res in z80_fetch cpu p),
    \<comment> \<open>0x8B: adc e\<close>
    (0x00D6, \<lambda>cpu p. let (cpu, res) = z80_adc cpu (reg_e cpu); cpu = set_a cpu res in z80_fetch cpu p),
    \<comment> \<open>0x8C: adc h\<close>
    (0x00D7, \<lambda>cpu p. let (cpu, res) = z80_adc cpu (reg_h cpu); cpu = set_a cpu res in z80_fetch cpu p),
    \<comment> \<open>0x8D: adc l\<close>
    (0x00D8, \<lambda>cpu p. let (cpu, res) = z80_adc cpu (reg_l cpu); cpu = set_a cpu res in z80_fetch cpu p),
    \<comment> \<open>0x8E: adc (hl)\<close>
    (0x00D9, \<lambda>cpu p. let p = mread p (hl cpu) in (cpu, p)),
    (0x00DA, \<lambda>cpu p. let cpu = cpu\<lparr>dlatch := z80_get_db p\<rparr> in (cpu, p)),
    (0x00DB, \<lambda>cpu p. let (cpu, res) = z80_adc cpu (dlatch cpu); cpu = set_a cpu res in z80_fetch cpu p),
    \<comment> \<open>0x8F: adc a\<close>
    (0x00DC, \<lambda>cpu p. let (cpu, res) = z80_adc cpu (reg_a cpu); cpu = set_a cpu res in z80_fetch cpu p),
    \<comment> \<open>0x90: sub b\<close>
    (0x00DD, \<lambda>cpu p. let (cpu, res) = z80_sub cpu (reg_b cpu); cpu = set_a cpu res in z80_fetch cpu p),
    \<comment> \<open>0x91: sub c\<close>
    (0x00DE, \<lambda>cpu p. let (cpu, res) = z80_sub cpu (reg_c cpu); cpu = set_a cpu res in z80_fetch cpu p),
    \<comment> \<open>0x92: sub d\<close>
    (0x00DF, \<lambda>cpu p. let (cpu, res) = z80_sub cpu (reg_d cpu); cpu = set_a cpu res in z80_fetch cpu p),
    \<comment> \<open>0x93: sub e\<close>
    (0x00E0, \<lambda>cpu p. let (cpu, res) = z80_sub cpu (reg_e cpu); cpu = set_a cpu res in z80_fetch cpu p),
    \<comment> \<open>0x94: sub h\<close>
    (0x00E1, \<lambda>cpu p. let (cpu, res) = z80_sub cpu (reg_h cpu); cpu = set_a cpu res in z80_fetch cpu p),
    \<comment> \<open>0x95: sub l\<close>
    (0x00E2, \<lambda>cpu p. let (cpu, res) = z80_sub cpu (reg_l cpu); cpu = set_a cpu res in z80_fetch cpu p),
    \<comment> \<open>0x96: sub (hl)\<close>
    (0x00E3, \<lambda>cpu p. let p = mread p (hl cpu) in (cpu, p)),
    (0x00E4, \<lambda>cpu p. let cpu = cpu\<lparr>dlatch := z80_get_db p\<rparr> in (cpu, p)),
    (0x00E5, \<lambda>cpu p. let (cpu, res) = z80_sub cpu (dlatch cpu); cpu = set_a cpu res in z80_fetch cpu p),
    \<comment> \<open>0x97: sub a\<close>
    (0x00E6, \<lambda>cpu p. let (cpu, res) = z80_sub cpu (reg_a cpu); cpu = set_a cpu res in z80_fetch cpu p),
    \<comment> \<open>0x98: sbc b\<close>
    (0x00E7, \<lambda>cpu p. let (cpu, res) = z80_sbc cpu (reg_b cpu); cpu = set_a cpu res in z80_fetch cpu p),
    \<comment> \<open>0x99: sbc c\<close>
    (0x00E8, \<lambda>cpu p. let (cpu, res) = z80_sbc cpu (reg_c cpu); cpu = set_a cpu res in z80_fetch cpu p),
    \<comment> \<open>0x9A: sbc d\<close>
    (0x00E9, \<lambda>cpu p. let (cpu, res) = z80_sbc cpu (reg_d cpu); cpu = set_a cpu res in z80_fetch cpu p),
    \<comment> \<open>0x9B: sbc e\<close>
    (0x00EA, \<lambda>cpu p. let (cpu, res) = z80_sbc cpu (reg_e cpu); cpu = set_a cpu res in z80_fetch cpu p),
    \<comment> \<open>0x9C: sbc h\<close>
    (0x00EB, \<lambda>cpu p. let (cpu, res) = z80_sbc cpu (reg_h cpu); cpu = set_a cpu res in z80_fetch cpu p),
    \<comment> \<open>0x9D: sbc l\<close>
    (0x00EC, \<lambda>cpu p. let (cpu, res) = z80_sbc cpu (reg_l cpu); cpu = set_a cpu res in z80_fetch cpu p),
    \<comment> \<open>0x9E: sbc (hl)\<close>
    (0x00ED, \<lambda>cpu p. let p = mread p (hl cpu) in (cpu, p)),
    (0x00EE, \<lambda>cpu p. let cpu = cpu\<lparr>dlatch := z80_get_db p\<rparr> in (cpu, p)),
    (0x00EF, \<lambda>cpu p. let (cpu, res) = z80_sbc cpu (dlatch cpu); cpu = set_a cpu res in z80_fetch cpu p),
    \<comment> \<open>0x9F: sbc a\<close>
    (0x00F0, \<lambda>cpu p. let (cpu, res) = z80_sbc cpu (reg_a cpu); cpu = set_a cpu res in z80_fetch cpu p),
    \<comment> \<open>0xA0: and b\<close>
    (0x00F1, \<lambda>cpu p. let (cpu, res) = z80_and cpu (reg_b cpu); cpu = set_a cpu res in z80_fetch cpu p),
    \<comment> \<open>0xA1: and c\<close>
    (0x00F2, \<lambda>cpu p. let (cpu, res) = z80_and cpu (reg_c cpu); cpu = set_a cpu res in z80_fetch cpu p),
    \<comment> \<open>0xA2: and d\<close>
    (0x00F3, \<lambda>cpu p. let (cpu, res) = z80_and cpu (reg_d cpu); cpu = set_a cpu res in z80_fetch cpu p),
    \<comment> \<open>0xA3: and e\<close>
    (0x00F4, \<lambda>cpu p. let (cpu, res) = z80_and cpu (reg_e cpu); cpu = set_a cpu res in z80_fetch cpu p),
    \<comment> \<open>0xA4: and h\<close>
    (0x00F5, \<lambda>cpu p. let (cpu, res) = z80_and cpu (reg_h cpu); cpu = set_a cpu res in z80_fetch cpu p),
    \<comment> \<open>0xA5: and l\<close>
    (0x00F6, \<lambda>cpu p. let (cpu, res) = z80_and cpu (reg_l cpu); cpu = set_a cpu res in z80_fetch cpu p),
    \<comment> \<open>0xA6: and (hl)\<close>
    (0x00F7, \<lambda>cpu p. let p = mread p (hl cpu) in (cpu, p)),
    (0x00F8, \<lambda>cpu p. let cpu = cpu\<lparr>dlatch := z80_get_db p\<rparr> in (cpu, p)),
    (0x00F9, \<lambda>cpu p. let (cpu, res) = z80_and cpu (dlatch cpu); cpu = set_a cpu res in z80_fetch cpu p),
    \<comment> \<open>0xA7: and a\<close>
    (0x00FA, \<lambda>cpu p. let (cpu, res) = z80_and cpu (reg_a cpu); cpu = set_a cpu res in z80_fetch cpu p),
    \<comment> \<open>0xA8: xor b\<close>
    (0x00FB, \<lambda>cpu p. let (cpu, res) = z80_xor cpu (reg_b cpu); cpu = set_a cpu res in z80_fetch cpu p),
    \<comment> \<open>0xA9: xor c\<close>
    (0x00FC, \<lambda>cpu p. let (cpu, res) = z80_xor cpu (reg_c cpu); cpu = set_a cpu res in z80_fetch cpu p),
    \<comment> \<open>0xAA: xor d\<close>
    (0x00FD, \<lambda>cpu p. let (cpu, res) = z80_xor cpu (reg_d cpu); cpu = set_a cpu res in z80_fetch cpu p),
    \<comment> \<open>0xAB: xor e\<close>
    (0x00FE, \<lambda>cpu p. let (cpu, res) = z80_xor cpu (reg_e cpu); cpu = set_a cpu res in z80_fetch cpu p),
    \<comment> \<open>0xAC: xor h\<close>
    (0x00FF, \<lambda>cpu p. let (cpu, res) = z80_xor cpu (reg_h cpu); cpu = set_a cpu res in z80_fetch cpu p),
    \<comment> \<open>0xAD: xor l\<close>
    (0x0100, \<lambda>cpu p. let (cpu, res) = z80_xor cpu (reg_l cpu); cpu = set_a cpu res in z80_fetch cpu p),
    \<comment> \<open>0xAE: xor (hl)\<close>
    (0x0101, \<lambda>cpu p. let p = mread p (hl cpu) in (cpu, p)),
    (0x0102, \<lambda>cpu p. let cpu = cpu\<lparr>dlatch := z80_get_db p\<rparr> in (cpu, p)),
    (0x0103, \<lambda>cpu p. let (cpu, res) = z80_xor cpu (dlatch cpu); cpu = set_a cpu res in z80_fetch cpu p),
    \<comment> \<open>0xAF: xor a\<close>
    (0x0104, \<lambda>cpu p. let (cpu, res) = z80_xor cpu (reg_a cpu); cpu = set_a cpu res in z80_fetch cpu p),
    \<comment> \<open>0xB0: or b\<close>
    (0x0105, \<lambda>cpu p. let (cpu, res) = z80_or cpu (reg_b cpu); cpu = set_a cpu res in z80_fetch cpu p),
    \<comment> \<open>0xB1: or c\<close>
    (0x0106, \<lambda>cpu p. let (cpu, res) = z80_or cpu (reg_c cpu); cpu = set_a cpu res in z80_fetch cpu p),
    \<comment> \<open>0xB2: or d\<close>
    (0x0107, \<lambda>cpu p. let (cpu, res) = z80_or cpu (reg_d cpu); cpu = set_a cpu res in z80_fetch cpu p),
    \<comment> \<open>0xB3: or e\<close>
    (0x0108, \<lambda>cpu p. let (cpu, res) = z80_or cpu (reg_e cpu); cpu = set_a cpu res in z80_fetch cpu p),
    \<comment> \<open>0xB4: or h\<close>
    (0x0109, \<lambda>cpu p. let (cpu, res) = z80_or cpu (reg_h cpu); cpu = set_a cpu res in z80_fetch cpu p),
    \<comment> \<open>0xB5: or l\<close>
    (0x010A, \<lambda>cpu p. let (cpu, res) = z80_or cpu (reg_l cpu); cpu = set_a cpu res in z80_fetch cpu p),
    \<comment> \<open>0xB6: or (hl)\<close>
    (0x010B, \<lambda>cpu p. let p = mread p (hl cpu) in (cpu, p)),
    (0x010C, \<lambda>cpu p. let cpu = cpu\<lparr>dlatch := z80_get_db p\<rparr> in (cpu, p)),
    (0x010D, \<lambda>cpu p. let (cpu, res) = z80_or cpu (dlatch cpu); cpu = set_a cpu res in z80_fetch cpu p),
    \<comment> \<open>0xB7: or a\<close>
    (0x010E, \<lambda>cpu p. let (cpu, res) = z80_or cpu (reg_a cpu); cpu = set_a cpu res in z80_fetch cpu p),
    \<comment> \<open>0xB8: cp b\<close>
    (0x010F, \<lambda>cpu p. let cpu = z80_cp cpu (reg_b cpu) in z80_fetch cpu p),
    \<comment> \<open>0xB9: cp c\<close>
    (0x0110, \<lambda>cpu p. let cpu = z80_cp cpu (reg_c cpu) in z80_fetch cpu p),
    \<comment> \<open>0xBA: cp d\<close>
    (0x0111, \<lambda>cpu p. let cpu = z80_cp cpu (reg_d cpu) in z80_fetch cpu p),
    \<comment> \<open>0xBB: cp e\<close>
    (0x0112, \<lambda>cpu p. let cpu = z80_cp cpu (reg_e cpu) in z80_fetch cpu p),
    \<comment> \<open>0xBC: cp h\<close>
    (0x0113, \<lambda>cpu p. let cpu = z80_cp cpu (reg_h cpu) in z80_fetch cpu p),
    \<comment> \<open>0xBD: cp l\<close>
    (0x0114, \<lambda>cpu p. let cpu = z80_cp cpu (reg_l cpu) in z80_fetch cpu p),
    \<comment> \<open>0xBE: cp (hl)\<close>
    (0x0115, \<lambda>cpu p. let p = mread p (hl cpu) in (cpu, p)),
    (0x0116, \<lambda>cpu p. let cpu = cpu\<lparr>dlatch := z80_get_db p\<rparr> in (cpu, p)),
    (0x0117, \<lambda>cpu p. let cpu = z80_cp cpu (dlatch cpu) in z80_fetch cpu p),
    \<comment> \<open>0xBF: cp a\<close>
    (0x0118, \<lambda>cpu p. let cpu = z80_cp cpu (reg_a cpu) in z80_fetch cpu p),
    \<comment> \<open>0xC0: ret nz\<close>
    (0x0119, \<lambda>cpu p. z80_fetch cpu p),
    \<comment> \<open>0xC1: pop bc2\<close>
    (0x011A, \<lambda>cpu p. z80_fetch cpu p),
    \<comment> \<open>0xC2: jp nz,nn\<close>
    (0x011B, \<lambda>cpu p. z80_fetch cpu p),
    \<comment> \<open>0xC3: jp nn\<close>
    (0x011C, \<lambda>cpu p. z80_fetch cpu p),
    \<comment> \<open>0xC4: call nz,nn\<close>
    (0x011D, \<lambda>cpu p. z80_fetch cpu p),
    \<comment> \<open>0xC5: push bc2\<close>
    (0x011E, \<lambda>cpu p. z80_fetch cpu p),
    \<comment> \<open>0xC6: add n\<close>
    (0x011F, \<lambda>cpu p. z80_fetch cpu p),
    \<comment> \<open>0xC7: rst 0h\<close>
    (0x0120, \<lambda>cpu p. z80_fetch cpu p),
    \<comment> \<open>0xC8: ret z\<close>
    (0x0121, \<lambda>cpu p. z80_fetch cpu p),
    \<comment> \<open>0xC9: ret\<close>
    (0x0122, \<lambda>cpu p. z80_fetch cpu p),
    \<comment> \<open>0xCA: jp z,nn\<close>
    (0x0123, \<lambda>cpu p. z80_fetch cpu p),
    \<comment> \<open>0xCB: cb prefix\<close>
    (0x0124, \<lambda>cpu p. z80_fetch cpu p),
    \<comment> \<open>0xCC: call z,nn\<close>
    (0x0125, \<lambda>cpu p. z80_fetch cpu p),
    \<comment> \<open>0xCD: call nn\<close>
    (0x0126, \<lambda>cpu p. z80_fetch cpu p),
    \<comment> \<open>0xCE: adc n\<close>
    (0x0127, \<lambda>cpu p. z80_fetch cpu p),
    \<comment> \<open>0xCF: rst 8h\<close>
    (0x0128, \<lambda>cpu p. z80_fetch cpu p),
    \<comment> \<open>0xD0: ret nc\<close>
    (0x0129, \<lambda>cpu p. z80_fetch cpu p),
    \<comment> \<open>0xD1: pop de2\<close>
    (0x012A, \<lambda>cpu p. z80_fetch cpu p),
    \<comment> \<open>0xD2: jp nc,nn\<close>
    (0x012B, \<lambda>cpu p. z80_fetch cpu p),
    \<comment> \<open>0xD3: out (n),a\<close>
    (0x012C, \<lambda>cpu p. z80_fetch cpu p),
    \<comment> \<open>0xD4: call nc,nn\<close>
    (0x012D, \<lambda>cpu p. z80_fetch cpu p),
    \<comment> \<open>0xD5: push de2\<close>
    (0x012E, \<lambda>cpu p. z80_fetch cpu p),
    \<comment> \<open>0xD6: sub n\<close>
    (0x012F, \<lambda>cpu p. z80_fetch cpu p),
    \<comment> \<open>0xD7: rst 10h\<close>
    (0x0130, \<lambda>cpu p. z80_fetch cpu p),
    \<comment> \<open>0xD8: ret c\<close>
    (0x0131, \<lambda>cpu p. z80_fetch cpu p),
    \<comment> \<open>0xD9: exx\<close>
    (0x0132, \<lambda>cpu p. z80_fetch cpu p),
    \<comment> \<open>0xDA: jp c,nn\<close>
    (0x0133, \<lambda>cpu p. z80_fetch cpu p),
    \<comment> \<open>0xDB: in a,(n)\<close>
    (0x0134, \<lambda>cpu p. z80_fetch cpu p),
    \<comment> \<open>0xDC: call c,nn\<close>
    (0x0135, \<lambda>cpu p. z80_fetch cpu p),
    \<comment> \<open>0xDD: dd prefix\<close>
    (0x0136, \<lambda>cpu p. z80_fetch cpu p),
    \<comment> \<open>0xDE: sbc n\<close>
    (0x0137, \<lambda>cpu p. z80_fetch cpu p),
    \<comment> \<open>0xDF: rst 18h\<close>
    (0x0138, \<lambda>cpu p. z80_fetch cpu p),
    \<comment> \<open>0xE0: ret po\<close>
    (0x0139, \<lambda>cpu p. z80_fetch cpu p),
    \<comment> \<open>0xE1: pop hl2\<close>
    (0x013A, \<lambda>cpu p. z80_fetch cpu p),
    \<comment> \<open>0xE2: jp po,nn\<close>
    (0x013B, \<lambda>cpu p. z80_fetch cpu p),
    \<comment> \<open>0xE3: ex (sp),hl\<close>
    (0x013C, \<lambda>cpu p. z80_fetch cpu p),
    \<comment> \<open>0xE4: call po,nn\<close>
    (0x013D, \<lambda>cpu p. z80_fetch cpu p),
    \<comment> \<open>0xE5: push hl2\<close>
    (0x013E, \<lambda>cpu p. z80_fetch cpu p),
    \<comment> \<open>0xE6: and n\<close>
    (0x013F, \<lambda>cpu p. z80_fetch cpu p),
    \<comment> \<open>0xE7: rst 20h\<close>
    (0x0140, \<lambda>cpu p. z80_fetch cpu p),
    \<comment> \<open>0xE8: ret pe\<close>
    (0x0141, \<lambda>cpu p. z80_fetch cpu p),
    \<comment> \<open>0xE9: jp hl\<close>
    (0x0142, \<lambda>cpu p. z80_fetch cpu p),
    \<comment> \<open>0xEA: jp pe,nn\<close>
    (0x0143, \<lambda>cpu p. z80_fetch cpu p),
    \<comment> \<open>0xEB: ex de,hl\<close>
    (0x0144, \<lambda>cpu p. z80_fetch cpu p),
    \<comment> \<open>0xEC: call pe,nn\<close>
    (0x0145, \<lambda>cpu p. z80_fetch cpu p),
    \<comment> \<open>0xED: ed prefix\<close>
    (0x0146, \<lambda>cpu p. z80_fetch cpu p),
    \<comment> \<open>0xEE: xor n\<close>
    (0x0147, \<lambda>cpu p. z80_fetch cpu p),
    \<comment> \<open>0xEF: rst 28h\<close>
    (0x0148, \<lambda>cpu p. z80_fetch cpu p),
    \<comment> \<open>0xF0: ret p\<close>
    (0x0149, \<lambda>cpu p. z80_fetch cpu p),
    \<comment> \<open>0xF1: pop sp2\<close>
    (0x014A, \<lambda>cpu p. z80_fetch cpu p),
    \<comment> \<open>0xF2: jp p,nn\<close>
    (0x014B, \<lambda>cpu p. z80_fetch cpu p),
    \<comment> \<open>0xF3: di\<close>
    (0x014C, \<lambda>cpu p. z80_fetch cpu p),
    \<comment> \<open>0xF4: call p,nn\<close>
    (0x014D, \<lambda>cpu p. z80_fetch cpu p),
    \<comment> \<open>0xF5: push sp2\<close>
    (0x014E, \<lambda>cpu p. z80_fetch cpu p),
    \<comment> \<open>0xF6: or n\<close>
    (0x014F, \<lambda>cpu p. z80_fetch cpu p),
    \<comment> \<open>0xF7: rst 30h\<close>
    (0x0150, \<lambda>cpu p. z80_fetch cpu p),
    \<comment> \<open>0xF8: ret m\<close>
    (0x0151, \<lambda>cpu p. z80_fetch cpu p),
    \<comment> \<open>0xF9: ld sp,hl\<close>
    (0x0152, \<lambda>cpu p. z80_fetch cpu p),
    \<comment> \<open>0xFA: jp m,nn\<close>
    (0x0153, \<lambda>cpu p. z80_fetch cpu p),
    \<comment> \<open>0xFB: ei\<close>
    (0x0154, \<lambda>cpu p. z80_fetch cpu p),
    \<comment> \<open>0xFC: call m,nn\<close>
    (0x0155, \<lambda>cpu p. z80_fetch cpu p),
    \<comment> \<open>0xFD: fd prefix\<close>
    (0x0156, \<lambda>cpu p. z80_fetch cpu p),
    \<comment> \<open>0xFE: cp n\<close>
    (0x0157, \<lambda>cpu p. z80_fetch cpu p),
    \<comment> \<open>0xFF: rst 38h\<close>
    (0x0158, \<lambda>cpu p. z80_fetch cpu p)
  ]"

definition z80_switch :: "64 word \<Rightarrow> z80_t \<Rightarrow> 64 word \<Rightarrow> z80_t \<times> 64 word" where
  "z80_switch s cpu p =
     (case map_of z80_cases s of
        Some body \<Rightarrow> body cpu p
      | None \<Rightarrow> (cpu, p))"

definition z80_tick :: "z80_t \<Rightarrow> 64 word \<Rightarrow> z80_t \<times> 64 word" where
  "z80_tick cpu p =
     (if pip (op cpu) AND Z80_PIP_BIT_WAIT \<noteq> 0 \<and> p AND Z80_WAIT \<noteq> 0 then
        (cpu\<lparr>pins := p AND NOT Z80_CTRL_PIN_MASK\<rparr>, p)
      else
        let p = p AND NOT Z80_CTRL_PIN_MASK;
            (cpu, p) =
              (if pip (op cpu) AND Z80_PIP_BIT_STEP \<noteq> 0 then
                 let s = step (op cpu);
                     cpu = cpu\<lparr>op := (op cpu)\<lparr>step := s + 1\<rparr>\<rparr>
                 in z80_switch s cpu p
               else (cpu, p));
            cpu = cpu\<lparr>op := (op cpu)\<lparr>pip := drop_bit 1 (pip (op cpu) AND NOT Z80_PIP_BITS)\<rparr>\<rparr>;
            cpu = cpu\<lparr>pins := p\<rparr>
        in (cpu, p))"

text \<open>
  The host loop: one call of \<open>z80_tick\<close> per pin word presented, the CPU carried from
  call to call. The result is the CPU after the last call and the pin word it returned
  (\<open>p0\<close> when no call is made).
\<close>

fun z80_run :: "z80_t \<Rightarrow> 64 word \<Rightarrow> 64 word list \<Rightarrow> z80_t \<times> 64 word" where
  "z80_run cpu p0 [] = (cpu, p0)"
| "z80_run cpu p0 (p # ps) = (case z80_tick cpu p of (cpu', p') \<Rightarrow> z80_run cpu' p' ps)"


section \<open>Vocabulary of the properties\<close>

text \<open>The wait gate of \<open>z80_tick\<close>: the pipeline samples WAIT and the WAIT pin is asserted.\<close>

definition z80_wait_tick :: "z80_t \<Rightarrow> 64 word \<Rightarrow> bool" where
  "z80_wait_tick cpu p = (pip (op cpu) AND Z80_PIP_BIT_WAIT \<noteq> 0 \<and> p AND Z80_WAIT \<noteq> 0)"



text \<open>
  The registers that no micro-step writes: IX, IY, I, IM and the shadow bank keep
  their values from \<open>c\<close> to \<open>c'\<close>.
\<close>

definition index_shadow_frame :: "z80_t \<Rightarrow> z80_t \<Rightarrow> bool" where
  "index_shadow_frame c c' =
     (ix c' = ix c \<and> iy c' = iy c \<and> reg_i c' = reg_i c \<and> im c' = im c \<and>
      af2 c' = af2 c \<and> bc2 c' = bc2 c \<and> de2 c' = de2 c \<and> hl2 c' = hl2 c)"


section \<open>Bits of the pin word\<close>

lemmas pin_defs = Z80_M1_def Z80_MREQ_def Z80_IORQ_def Z80_RD_def Z80_WR_def Z80_RFSH_def
  Z80_WAIT_def

lemma mask16_eq: "(0xFFFF::64 word) = mask 16"
  by (simp add: mask_eq_exp_minus_1)


lemma mask8_eq: "(0xFF::64 word) = mask 8"
  by (simp add: mask_eq_exp_minus_1)

lemma pin_test: "(w AND push_bit n 1 = 0) = (\<not> bit w n)" for w :: "64 word"
  by (simp add: and_exp_eq_0_iff_not_bit)

lemma bit_pin: "bit (push_bit m 1 :: 64 word) n = (n = m \<and> m < 64)"
  by (auto simp add: bit_simps simp del: push_bit_of_1)

lemma bit_ctrl_mask:
  "bit Z80_CTRL_PIN_MASK n = (n = 24 \<or> n = 25 \<or> n = 26 \<or> n = 27 \<or> n = 28 \<or> n = 34)"
  unfolding Z80_CTRL_PIN_MASK_def pin_defs bit_or_iff bit_pin
  by simp


lemma bit_set_ab_x:
  "bit (z80_set_ab_x p ab x) n = (bit p n \<and> 16 \<le> n \<or> n < 16 \<and> bit ab n \<or> bit x n)"
  unfolding z80_set_ab_x_def mask16_eq
  by (auto simp add: bit_simps dest: bit_imp_le_length)






lemma get_db_masked: "z80_get_db (p AND NOT Z80_CTRL_PIN_MASK) = Z80_GET_DATA p"
  unfolding z80_get_db_def Z80_GET_DATA_def mask8_eq
  by (rule bit_word_eqI) (simp add: bit_simps bit_ctrl_mask)


section \<open>The switch, case by case\<close>

lemmas setters = set_a_def set_b_def set_c_def set_d_def set_e_def set_h_def set_l_def
  set_wzl_def set_wzh_def set_spl_def set_sph_def
lemmas alus = z80_halt_def z80_add_def z80_adc_def z80_sub_def z80_sbc_def z80_and_def
  z80_xor_def z80_or_def z80_cp_def

lemmas getters = reg_a_def reg_b_def reg_c_def reg_d_def reg_e_def reg_h_def reg_l_def reg_f_def


lemma cases_frame:
  "list_all (\<lambda>(k, body). \<forall>cpu p. index_shadow_frame cpu (fst (body cpu p))) z80_cases"
  unfolding z80_cases_def
  by (simp add: index_shadow_frame_def setters alus z80_fetch_def z80_refresh_def Let_def)

lemma cases_stored_pins:
  "list_all (\<lambda>(k, body). \<forall>cpu p x.
      body (cpu\<lparr>pins := x\<rparr>) p = (case body cpu p of (c, q) \<Rightarrow> (c\<lparr>pins := x\<rparr>, q))) z80_cases"
  unfolding z80_cases_def
  by (simp add: setters getters alus z80_fetch_def z80_refresh_def Let_def)

lemma switch_0: "z80_switch 0 cpu p = (cpu\<lparr>ir := z80_get_db p\<rparr>, p)"
  by (simp add: z80_switch_def z80_cases_def)

lemma switch_1: "z80_switch 1 cpu p = z80_refresh (cpu\<lparr>op := z80_opstate_table ! unat (ir cpu)\<rparr>) p"
  by (simp add: z80_switch_def z80_cases_def)

lemma switch_2: "z80_switch 2 cpu p = z80_fetch cpu p"
  by (simp add: z80_switch_def z80_cases_def)

lemma switch_DD: "z80_switch 0xDD cpu p = z80_fetch (set_a cpu 0) p"
  by (simp add: z80_switch_def z80_cases_def z80_sub_def)

lemma table_0: "z80_opstate_table ! 0 = \<lparr>pip = 2, step = 2\<rparr>"
  by (simp add: z80_opstate_table_def)

lemma z80_switch_cases:
  assumes "list_all (\<lambda>(k, body). Q k body) z80_cases"
    and "\<And>body. Q s body \<Longrightarrow> P (body cpu p)"
    and "map_of z80_cases s = None \<Longrightarrow> P (cpu, p)"
  shows "P (z80_switch s cpu p)"
proof (cases "map_of z80_cases s")
  case None
  then show ?thesis using assms(3) by (simp add: z80_switch_def)
next
  case (Some body)
  then have "(s, body) \<in> set z80_cases" by (rule map_of_SomeD)
  with assms(1) have "Q s body" by (auto simp add: list_all_iff)
  then show ?thesis using assms(2) Some by (simp add: z80_switch_def)
qed



lemma switch_frame: "index_shadow_frame cpu (fst (z80_switch s cpu p))"
proof (rule z80_switch_cases [OF cases_frame])
  fix body :: "z80_t \<Rightarrow> 64 word \<Rightarrow> z80_t \<times> 64 word"
  assume "\<forall>cpu p. index_shadow_frame cpu (fst (body cpu p))"
  then show "index_shadow_frame cpu (fst (body cpu p))" by blast
next
  show "index_shadow_frame cpu (fst (cpu, p))" by (simp add: index_shadow_frame_def)
qed

lemma switch_stored_pins:
  "z80_switch s (cpu\<lparr>pins := x\<rparr>) p =
     (case z80_switch s cpu p of (c, q) \<Rightarrow> (c\<lparr>pins := x\<rparr>, q))"
proof (cases "map_of z80_cases s")
  case None
  then show ?thesis by (simp add: z80_switch_def)
next
  case (Some body)
  then have "(s, body) \<in> set z80_cases" by (rule map_of_SomeD)
  with cases_stored_pins
  have "body (cpu\<lparr>pins := x\<rparr>) p = (case body cpu p of (c, q) \<Rightarrow> (c\<lparr>pins := x\<rparr>, q))"
    by (auto simp add: list_all_iff)
  with Some show ?thesis by (simp add: z80_switch_def)
qed


section \<open>Single ticks and runs\<close>



lemma switch_stored_pins_op:
  "z80_switch s (cpu\<lparr>pins := x, op := opst\<rparr>) p =
     (case z80_switch s (cpu\<lparr>op := opst\<rparr>) p of (c, q) \<Rightarrow> (c\<lparr>pins := x\<rparr>, q))"
proof -
  have "cpu\<lparr>pins := x, op := opst\<rparr> = (cpu\<lparr>op := opst\<rparr>)\<lparr>pins := x\<rparr>"
    by (cases cpu) simp
  then show ?thesis by (simp only: switch_stored_pins)
qed

lemma tick_stored_pins: "z80_tick (cpu\<lparr>pins := x\<rparr>) p = z80_tick cpu p"
  by (simp add: z80_tick_def Let_def split_def switch_stored_pins_op)

lemma wait_tick: "z80_wait_tick cpu p \<Longrightarrow>
    z80_tick cpu p = (cpu\<lparr>pins := p AND NOT Z80_CTRL_PIN_MASK\<rparr>, p)"
  by (simp add: z80_tick_def z80_wait_tick_def)

lemma run_wait:
  assumes "pip (op cpu) AND Z80_PIP_BIT_WAIT \<noteq> 0"
    and "\<forall>p \<in> set ps. p AND Z80_WAIT \<noteq> 0"
  shows "z80_run cpu p0 ps =
     (if ps = [] then (cpu, p0)
      else (cpu\<lparr>pins := last ps AND NOT Z80_CTRL_PIN_MASK\<rparr>, last ps))"
  using assms
proof (induction ps arbitrary: cpu p0)
  case Nil
  then show ?case by simp
next
  case (Cons p ps)
  let ?c = "cpu\<lparr>pins := p AND NOT Z80_CTRL_PIN_MASK\<rparr>"
  from Cons.prems have "z80_wait_tick cpu p" by (simp add: z80_wait_tick_def)
  then have t: "z80_tick cpu p = (?c, p)" by (rule wait_tick)
  have "pip (op ?c) AND Z80_PIP_BIT_WAIT \<noteq> 0" using Cons.prems(1) by simp
  moreover have "\<forall>q \<in> set ps. q AND Z80_WAIT \<noteq> 0" using Cons.prems(2) by simp
  ultimately have "z80_run ?c p ps =
     (if ps = [] then (?c, p)
      else (?c\<lparr>pins := last ps AND NOT Z80_CTRL_PIN_MASK\<rparr>, last ps))"
    by (rule Cons.IH)
  then show ?case by (simp add: t)
qed

lemma tick_idle:
  assumes "p AND Z80_WAIT = 0" and "pip (op cpu) AND Z80_PIP_BIT_STEP = 0"
  shows "z80_tick cpu p =
     (cpu\<lparr>op := (op cpu)\<lparr>pip := drop_bit 1 (pip (op cpu) AND NOT Z80_PIP_BITS)\<rparr>,
          pins := p AND NOT Z80_CTRL_PIN_MASK\<rparr>, p AND NOT Z80_CTRL_PIN_MASK)"
  using assms by (simp add: z80_tick_def Let_def)

lemma tick_step:
  assumes "p AND Z80_WAIT = 0" and "pip (op cpu) AND Z80_PIP_BIT_STEP \<noteq> 0"
  shows "z80_tick cpu p =
     (case z80_switch (step (op cpu)) (cpu\<lparr>op := (op cpu)\<lparr>step := step (op cpu) + 1\<rparr>\<rparr>)
             (p AND NOT Z80_CTRL_PIN_MASK) of
        (c, q) \<Rightarrow> (c\<lparr>op := (op c)\<lparr>pip := drop_bit 1 (pip (op c) AND NOT Z80_PIP_BITS)\<rparr>,
                     pins := q\<rparr>, q))"
  using assms by (simp add: z80_tick_def Let_def split_def)

lemmas pip_defs = Z80_PIP_BIT_STEP_def Z80_PIP_BIT_WAIT_def Z80_PIP_BITS_def

lemma nop_tick1:
  assumes "op c = \<lparr>pip = 0xFFFFFFFF80000005, step = 0\<rparr>"
    and "Z80_GET_DATA p = 0" and "p AND Z80_WAIT = 0"
  shows "z80_tick c p =
    (c\<lparr>op := \<lparr>pip = 0x7FFFFFFF40000002, step = 1\<rparr>, ir := 0,
        pins := p AND NOT Z80_CTRL_PIN_MASK\<rparr>, p AND NOT Z80_CTRL_PIN_MASK)"
  using assms by (simp add: tick_step pip_defs switch_0 get_db_masked)

lemma nop_tick2:
  assumes "op c = \<lparr>pip = 0x7FFFFFFF40000002, step = 1\<rparr>" and "p AND Z80_WAIT = 0"
  shows "z80_tick c p =
    (c\<lparr>op := \<lparr>pip = 0x3FFFFFFF20000001, step = 1\<rparr>,
        pins := p AND NOT Z80_CTRL_PIN_MASK\<rparr>, p AND NOT Z80_CTRL_PIN_MASK)"
  using assms by (simp add: tick_idle pip_defs)

lemma nop_tick3:
  assumes "op c = \<lparr>pip = 0x3FFFFFFF20000001, step = 1\<rparr>" and "ir c = 0"
    and "p AND Z80_WAIT = 0"
  shows "z80_tick c p =
    (c\<lparr>op := \<lparr>pip = 1, step = 2\<rparr>,
        reg_r := (reg_r c AND 0x80) OR ((reg_r c + 1) AND 0x7F),
        pins := z80_set_ab_x (p AND NOT Z80_CTRL_PIN_MASK) (ucast (reg_r c))
                  (Z80_MREQ OR Z80_RFSH)\<rparr>,
     z80_set_ab_x (p AND NOT Z80_CTRL_PIN_MASK) (ucast (reg_r c)) (Z80_MREQ OR Z80_RFSH))"
  using assms by (simp add: tick_step pip_defs switch_1 table_0 z80_refresh_def Let_def)

lemma nop_tick4:
  assumes "op c = \<lparr>pip = 1, step = 2\<rparr>"
  shows "z80_tick c p =
    (c\<lparr>op := \<lparr>pip = 5, step = 0\<rparr>, pc := pc c + 1,
        pins := z80_set_ab_x (p AND NOT Z80_CTRL_PIN_MASK) (pc c)
                  (Z80_M1 OR Z80_MREQ OR Z80_RD)\<rparr>,
     z80_set_ab_x (p AND NOT Z80_CTRL_PIN_MASK) (pc c) (Z80_M1 OR Z80_MREQ OR Z80_RD))"
  using assms by (simp add: z80_tick_def pip_defs switch_2 z80_fetch_def Let_def)

lemma init_op: "op (fst (z80_init cpu)) = \<lparr>pip = 0xFFFFFFFF80000005, step = 0\<rparr>"
  by (simp add: z80_init_def z80_zero_def Let_def)

lemma init_regs: "pc (fst (z80_init cpu)) = 0" "reg_r (fst (z80_init cpu)) = 0"
  by (simp_all add: z80_init_def z80_zero_def Let_def)

lemma reset_nop_trace:
  assumes "Z80_GET_DATA p1 = 0" and "p1 AND Z80_WAIT = 0"
    and "p2 AND Z80_WAIT = 0" and "p3 AND Z80_WAIT = 0"
  shows "step (op (fst (z80_run (fst (z80_init cpu)) p0 [p1]))) = 1 \<and>
         step (op (fst (z80_run (fst (z80_init cpu)) p0 [p1, p2]))) = 1 \<and>
         step (op (fst (z80_run (fst (z80_init cpu)) p0 [p1, p2, p3]))) = 2 \<and>
         step (op (fst (z80_run (fst (z80_init cpu)) p0 [p1, p2, p3, p4]))) = 0 \<and>
         pc (fst (z80_run (fst (z80_init cpu)) p0 [p1, p2, p3, p4])) = 1 \<and>
         snd (z80_run (fst (z80_init cpu)) p0 [p1, p2, p3, p4]) =
           z80_set_ab_x (p4 AND NOT Z80_CTRL_PIN_MASK) 0 (Z80_M1 OR Z80_MREQ OR Z80_RD) \<and>
         snd (z80_run (fst (z80_init cpu)) p0 [p1, p2, p3]) AND Z80_MREQ \<noteq> 0 \<and>
         snd (z80_run (fst (z80_init cpu)) p0 [p1, p2, p3]) AND Z80_RFSH \<noteq> 0"
  using assms
  by (simp add: nop_tick1 nop_tick2 nop_tick3 nop_tick4 init_op init_regs pin_test
      bit_set_ab_x bit_or_iff bit_pin pin_defs del: push_bit_of_1)

lemma get_addr_fetch:
  "Z80_GET_ADDR (z80_set_ab_x p ab (Z80_M1 OR Z80_MREQ OR Z80_RD)) = ab"
  unfolding Z80_GET_ADDR_def mask16_eq
  by (rule bit_word_eqI)
    (auto simp add: bit_simps bit_set_ab_x bit_pin pin_defs simp del: push_bit_of_1
      dest: bit_imp_le_length)

lemma ctrl_fetch:
  "z80_set_ab_x (p AND NOT Z80_CTRL_PIN_MASK) ab (Z80_M1 OR Z80_MREQ OR Z80_RD)
     AND Z80_CTRL_PIN_MASK = Z80_M1 OR Z80_MREQ OR Z80_RD"
  apply (rule bit_word_eqI)
  apply (simp only: bit_and_iff bit_set_ab_x bit_not_iff bit_ctrl_mask bit_or_iff pin_defs bit_pin)
  apply auto
  done

section \<open>Properties of the tick engine\<close>

subsection \<open>Bus requests in the returned pin word\<close>




subsection \<open>The stored pins\<close>

text \<open>
  C2, as stated, fails on a wait-stalled tick: the wait gate stores the input pin word
  with the control bits cleared and returns the input pin word as it came. With the
  pipeline sampling WAIT and the host presenting WAIT together with the pending
  MREQ|RD, the stored and the returned pin words differ.
\<close>

theorem z80_tick_stored_pins_counterexample:
  "pins (fst (z80_tick (z80_zero\<lparr>op := \<lparr>pip = Z80_PIP_BIT_WAIT, step = 0\<rparr>\<rparr>)
                 (Z80_WAIT OR Z80_MREQ OR Z80_RD))) \<noteq>
   snd (z80_tick (z80_zero\<lparr>op := \<lparr>pip = Z80_PIP_BIT_WAIT, step = 0\<rparr>\<rparr>)
          (Z80_WAIT OR Z80_MREQ OR Z80_RD))"
  by (simp add: z80_tick_def pip_defs pin_defs Z80_CTRL_PIN_MASK_def)

text \<open>
  C2 (amended): after a tick that is not wait-stalled the pins field stored in the CPU
  equals the returned pin word; after a wait-stalled tick it equals the returned pin
  word with the control bits M1, MREQ, IORQ, RD, WR and RFSH cleared, the returned word
  being the input unchanged.
\<close>

theorem z80_tick_stored_pins:
  "(if z80_wait_tick cpu p
    then snd (z80_tick cpu p) = p \<and>
         pins (fst (z80_tick cpu p)) = snd (z80_tick cpu p) AND NOT Z80_CTRL_PIN_MASK
    else pins (fst (z80_tick cpu p)) = snd (z80_tick cpu p))"
  by (simp add: z80_tick_def z80_wait_tick_def Let_def split_def)

theorem z80_tick_stored_pins_witness:
  "z80_wait_tick (z80_zero\<lparr>op := \<lparr>pip = Z80_PIP_BIT_WAIT, step = 0\<rparr>\<rparr>)
     (Z80_WAIT OR Z80_MREQ OR Z80_RD) \<and>
   snd (z80_tick (z80_zero\<lparr>op := \<lparr>pip = Z80_PIP_BIT_WAIT, step = 0\<rparr>\<rparr>)
          (Z80_WAIT OR Z80_MREQ OR Z80_RD)) = Z80_WAIT OR Z80_MREQ OR Z80_RD \<and>
   pins (fst (z80_tick (z80_zero\<lparr>op := \<lparr>pip = Z80_PIP_BIT_WAIT, step = 0\<rparr>\<rparr>)
                 (Z80_WAIT OR Z80_MREQ OR Z80_RD))) =
     (Z80_WAIT OR Z80_MREQ OR Z80_RD) AND NOT Z80_CTRL_PIN_MASK \<and>
   \<not> z80_wait_tick (z80_zero\<lparr>op := \<lparr>pip = 1, step = 2\<rparr>\<rparr>) 0 \<and>
   pins (fst (z80_tick (z80_zero\<lparr>op := \<lparr>pip = 1, step = 2\<rparr>\<rparr>) 0)) =
     snd (z80_tick (z80_zero\<lparr>op := \<lparr>pip = 1, step = 2\<rparr>\<rparr>) 0)"
proof -
  let ?c = "z80_zero\<lparr>op := \<lparr>pip = 1, step = 2\<rparr>\<rparr>"
  let ?w = "z80_zero\<lparr>op := \<lparr>pip = Z80_PIP_BIT_WAIT, step = 0\<rparr>\<rparr>"
  let ?p = "Z80_WAIT OR Z80_MREQ OR Z80_RD"
  have a: "z80_wait_tick ?w ?p"
    by (simp add: z80_wait_tick_def pip_defs pin_defs)
  have b: "\<not> z80_wait_tick ?c 0"
    by (simp add: z80_wait_tick_def)
  from z80_tick_stored_pins [of ?w ?p] a
  have c: "snd (z80_tick ?w ?p) = ?p \<and>
           pins (fst (z80_tick ?w ?p)) = snd (z80_tick ?w ?p) AND NOT Z80_CTRL_PIN_MASK"
    by (simp only: if_True)
  from z80_tick_stored_pins [of ?c 0] b
  have d: "pins (fst (z80_tick ?c 0)) = snd (z80_tick ?c 0)"
    by (simp only: if_False)
  from a b c d show ?thesis by (simp only: simp_thms)
qed

subsection \<open>Wait ticks\<close>

text \<open>
  C3: when the pipeline's wait bit (bit 32 of \<open>pip\<close>) is set and the WAIT pin is
  asserted, \<open>z80_tick\<close> returns the CPU with only the stored pins changed (to the input
  with the control bits cleared): registers, decoder step and pipeline word are the
  same. So after any number of such ticks the CPU equals the one before them up to the
  stored pins, and every later tick behaves as if no wait tick had happened.
\<close>

theorem z80_wait_ticks_keep_state:
  assumes "pip (op cpu) AND Z80_PIP_BIT_WAIT \<noteq> 0"
    and "p AND Z80_WAIT \<noteq> 0"
    and "\<forall>q \<in> set ps. q AND Z80_WAIT \<noteq> 0"
  shows "z80_tick cpu p = (cpu\<lparr>pins := p AND NOT Z80_CTRL_PIN_MASK\<rparr>, p) \<and>
         (fst (z80_run cpu p0 ps))\<lparr>pins := pins cpu\<rparr> = cpu \<and>
         z80_tick (fst (z80_run cpu p0 ps)) p' = z80_tick cpu p'"
proof -
  from assms(1,2) have "z80_wait_tick cpu p" by (simp add: z80_wait_tick_def)
  then have "z80_tick cpu p = (cpu\<lparr>pins := p AND NOT Z80_CTRL_PIN_MASK\<rparr>, p)"
    by (rule wait_tick)
  moreover have "(fst (z80_run cpu p0 ps))\<lparr>pins := pins cpu\<rparr> = cpu"
    by (simp add: run_wait [OF assms(1,3)])
  moreover have "z80_tick (fst (z80_run cpu p0 ps)) p' = z80_tick cpu p'"
    by (simp add: run_wait [OF assms(1,3)] tick_stored_pins)
  ultimately show ?thesis by blast
qed

theorem z80_wait_ticks_keep_state_witness:
  "pip (op (z80_zero\<lparr>op := \<lparr>pip = Z80_PIP_BIT_WAIT, step = 3\<rparr>\<rparr>)) AND Z80_PIP_BIT_WAIT \<noteq> 0 \<and>
   Z80_WAIT AND Z80_WAIT \<noteq> 0 \<and>
   (Z80_WAIT OR Z80_MREQ) AND Z80_WAIT \<noteq> 0 \<and>
   z80_tick (z80_zero\<lparr>op := \<lparr>pip = Z80_PIP_BIT_WAIT, step = 3\<rparr>\<rparr>) Z80_WAIT =
     (z80_zero\<lparr>op := \<lparr>pip = Z80_PIP_BIT_WAIT, step = 3\<rparr>\<rparr>
        \<lparr>pins := Z80_WAIT AND NOT Z80_CTRL_PIN_MASK\<rparr>, Z80_WAIT) \<and>
   (fst (z80_run (z80_zero\<lparr>op := \<lparr>pip = Z80_PIP_BIT_WAIT, step = 3\<rparr>\<rparr>) 0
           [Z80_WAIT, Z80_WAIT OR Z80_MREQ]))
     \<lparr>pins := pins (z80_zero\<lparr>op := \<lparr>pip = Z80_PIP_BIT_WAIT, step = 3\<rparr>\<rparr>)\<rparr> =
     z80_zero\<lparr>op := \<lparr>pip = Z80_PIP_BIT_WAIT, step = 3\<rparr>\<rparr> \<and>
   z80_tick (fst (z80_run (z80_zero\<lparr>op := \<lparr>pip = Z80_PIP_BIT_WAIT, step = 3\<rparr>\<rparr>) 0
                    [Z80_WAIT, Z80_WAIT OR Z80_MREQ])) 0 =
     z80_tick (z80_zero\<lparr>op := \<lparr>pip = Z80_PIP_BIT_WAIT, step = 3\<rparr>\<rparr>) 0"
proof -
  let ?c = "z80_zero\<lparr>op := \<lparr>pip = Z80_PIP_BIT_WAIT, step = 3\<rparr>\<rparr>"
  let ?ps = "[Z80_WAIT, Z80_WAIT OR Z80_MREQ]"
  have h1: "pip (op ?c) AND Z80_PIP_BIT_WAIT \<noteq> 0"
    by (simp add: pip_defs)
  have h2: "Z80_WAIT AND Z80_WAIT \<noteq> 0"
    by (simp add: pin_defs)
  have h3: "\<forall>q \<in> set ?ps. q AND Z80_WAIT \<noteq> 0"
    by (simp add: pin_defs)
  have h4: "(Z80_WAIT OR Z80_MREQ) AND Z80_WAIT \<noteq> 0"
    by (simp add: pin_defs)
  from z80_wait_ticks_keep_state [OF h1 h2 h3, of 0 0] h1 h2 h4
  show ?thesis by blast
qed

subsection \<open>Subtraction\<close>

text \<open>
  C4: \<open>z80_sub\<close> should set Z exactly when the accumulator equals the operand and C
  exactly when it is below it. The function is a stub: it returns 0 and leaves the
  flags byte as it was. On the SUB B step (decoder step 0xDD, opcode 0x90) with
  A = B = 5 and F = 0 the Z flag stays clear, and with A = 1, B = 2 and F = 0 the C flag
  stays clear.
\<close>

theorem z80_sub_leaves_flags:
  "reg_f (fst (z80_sub cpu val)) = reg_f cpu \<and> snd (z80_sub cpu val) = 0 \<and>
   reg_f (fst (z80_tick (z80_zero\<lparr>op := \<lparr>pip = 1, step = 0xDD\<rparr>, af := 0x0500, bc := 0x0500\<rparr>) 0))
     AND Z80_ZF = 0 \<and>
   reg_f (fst (z80_tick (z80_zero\<lparr>op := \<lparr>pip = 1, step = 0xDD\<rparr>, af := 0x0100, bc := 0x0200\<rparr>) 0))
     AND Z80_CF = 0"
  by (simp add: z80_sub_def z80_tick_def Let_def split_def z80_zero_def switch_DD z80_fetch_def
      set_a_def reg_f_def lo8_def with_hi8_def Z80_PIP_BIT_WAIT_def Z80_PIP_BIT_STEP_def
      Z80_ZF_def Z80_CF_def)

subsection \<open>Initialisation\<close>

text \<open>
  C5: \<open>z80_init\<close> zeroes the CPU, sets the twelve 16-bit register pairs to 0x5555 and
  returns M1|MREQ|RD, as claimed. The pipeline word is not the claimed
  0x0000000080000005: the \<open>int\<close> expression \<open>(1<<31)|5\<close> is negative and is sign-extended
  by the assignment, so \<open>pip\<close> is 0xFFFFFFFF80000005, with the wait bit 32 set.
\<close>

theorem z80_init_state:
  "fst (z80_init cpu) =
     z80_zero\<lparr>op := \<lparr>pip = 0xFFFFFFFF80000005, step = 0\<rparr>,
       af := 0x5555, bc := 0x5555, de := 0x5555, hl := 0x5555,
       wz := 0x5555, sp := 0x5555, ix := 0x5555, iy := 0x5555,
       af2 := 0x5555, bc2 := 0x5555, de2 := 0x5555, hl2 := 0x5555\<rparr> \<and>
   snd (z80_init cpu) = Z80_M1 OR Z80_MREQ OR Z80_RD \<and>
   pip (op (fst (z80_init cpu))) \<noteq> 0x0000000080000005 \<and>
   pip (op (fst (z80_init cpu))) AND Z80_PIP_BIT_WAIT \<noteq> 0"
  by (simp add: z80_init_def z80_zero_def Let_def pip_defs)

subsection \<open>Reset, then NOP\<close>

text \<open>
  C6: from the state produced by \<open>z80_init\<close>, with the data bus holding 0x00 and WAIT
  low in each of the four pin words presented, \<open>z80_opdone\<close> is false after the first,
  the second and the third call of \<open>z80_tick\<close> and true after the fourth.
\<close>

theorem reset_nop_opdone_at_fourth_tick:
  assumes "Z80_GET_DATA p1 = 0" and "p1 AND Z80_WAIT = 0"
    and "Z80_GET_DATA p2 = 0" and "p2 AND Z80_WAIT = 0"
    and "Z80_GET_DATA p3 = 0" and "p3 AND Z80_WAIT = 0"
    and "Z80_GET_DATA p4 = 0" and "p4 AND Z80_WAIT = 0"
  shows "\<not> z80_opdone (fst (z80_run (fst (z80_init cpu)) (snd (z80_init cpu)) [p1])) \<and>
         \<not> z80_opdone (fst (z80_run (fst (z80_init cpu)) (snd (z80_init cpu)) [p1, p2])) \<and>
         \<not> z80_opdone (fst (z80_run (fst (z80_init cpu)) (snd (z80_init cpu)) [p1, p2, p3])) \<and>
         z80_opdone (fst (z80_run (fst (z80_init cpu)) (snd (z80_init cpu)) [p1, p2, p3, p4]))"
  unfolding z80_opdone_def
  using reset_nop_trace [OF assms(1,2,4,6), where cpu = cpu and ?p0.0 = "snd (z80_init cpu)"
      and ?p4.0 = p4]
  by (simp del: z80_run.simps)

theorem reset_nop_opdone_at_fourth_tick_witness:
  "Z80_GET_DATA (Z80_M1 OR Z80_MREQ OR Z80_RD) = 0 \<and>
   (Z80_M1 OR Z80_MREQ OR Z80_RD) AND Z80_WAIT = 0 \<and>
   Z80_GET_DATA 0 = 0 \<and> 0 AND Z80_WAIT = 0 \<and>
   \<not> z80_opdone (fst (z80_run (fst (z80_init z80_zero)) (snd (z80_init z80_zero))
                    [Z80_M1 OR Z80_MREQ OR Z80_RD])) \<and>
   \<not> z80_opdone (fst (z80_run (fst (z80_init z80_zero)) (snd (z80_init z80_zero))
                    [Z80_M1 OR Z80_MREQ OR Z80_RD, 0])) \<and>
   \<not> z80_opdone (fst (z80_run (fst (z80_init z80_zero)) (snd (z80_init z80_zero))
                    [Z80_M1 OR Z80_MREQ OR Z80_RD, 0, 0])) \<and>
   z80_opdone (fst (z80_run (fst (z80_init z80_zero)) (snd (z80_init z80_zero))
                    [Z80_M1 OR Z80_MREQ OR Z80_RD, 0, 0, 0]))"
proof -
  have d1: "Z80_GET_DATA (Z80_M1 OR Z80_MREQ OR Z80_RD) = 0"
    by (simp add: Z80_GET_DATA_def pin_defs)
  have w1: "(Z80_M1 OR Z80_MREQ OR Z80_RD) AND Z80_WAIT = 0"
    by (simp add: pin_defs)
  have d0: "Z80_GET_DATA 0 = 0"
    by (simp add: Z80_GET_DATA_def)
  have w0: "0 AND Z80_WAIT = 0"
    by simp
  from reset_nop_opdone_at_fourth_tick [OF d1 w1 d0 w0 d0 w0 d0 w0, of z80_zero] d1 w1 d0 w0
  show ?thesis by (simp del: z80_run.simps)
qed

text \<open>
  C7, as stated, fails: \<open>z80_init\<close> leaves PC at 0 and issues no fetch of its own, so the
  overlapped fetch of the fourth tick is the first to put PC on the address bus. Its
  address is 0x0000, not 0x0001, and PC is 0x0001 afterwards, not 0x0002.
\<close>

theorem reset_nop_overlap_fetch_counterexample:
  "\<not> (Z80_GET_ADDR (snd (z80_run (fst (z80_init z80_zero)) (snd (z80_init z80_zero))
                          [0, 0, 0, 0])) = 0x0001 \<and>
       pc (fst (z80_run (fst (z80_init z80_zero)) (snd (z80_init z80_zero))
                  [0, 0, 0, 0])) = 0x0002)"
  using reset_nop_trace [where ?p1.0 = 0 and ?p2.0 = 0 and ?p3.0 = 0 and ?p4.0 = 0
      and cpu = z80_zero and ?p0.0 = "snd (z80_init z80_zero)"]
  by (simp add: Z80_GET_DATA_def del: z80_run.simps)

text \<open>
  C7 (amended): in the reset-then-NOP run (\<open>z80_init\<close>, then ticks with 0x00 on the data
  bus and WAIT low) the pin word returned by the fourth tick is the overlapped fetch
  with address 0x0000 and, of the control pins, exactly M1, MREQ and RD asserted, and PC
  is 0x0001 after that tick.
\<close>

theorem reset_nop_overlap_fetch:
  assumes "Z80_GET_DATA p1 = 0" and "p1 AND Z80_WAIT = 0"
    and "Z80_GET_DATA p2 = 0" and "p2 AND Z80_WAIT = 0"
    and "Z80_GET_DATA p3 = 0" and "p3 AND Z80_WAIT = 0"
    and "Z80_GET_DATA p4 = 0" and "p4 AND Z80_WAIT = 0"
  shows "Z80_GET_ADDR (snd (z80_run (fst (z80_init cpu)) (snd (z80_init cpu))
                              [p1, p2, p3, p4])) = 0x0000 \<and>
         snd (z80_run (fst (z80_init cpu)) (snd (z80_init cpu)) [p1, p2, p3, p4])
             AND Z80_CTRL_PIN_MASK = Z80_M1 OR Z80_MREQ OR Z80_RD \<and>
         pc (fst (z80_run (fst (z80_init cpu)) (snd (z80_init cpu))
                    [p1, p2, p3, p4])) = 0x0001"
  using reset_nop_trace [OF assms(1,2,4,6), where cpu = cpu and ?p0.0 = "snd (z80_init cpu)"
      and ?p4.0 = p4]
  by (simp add: get_addr_fetch ctrl_fetch del: z80_run.simps)

theorem reset_nop_overlap_fetch_witness:
  "Z80_GET_DATA 0 = 0 \<and> 0 AND Z80_WAIT = 0 \<and>
   Z80_GET_ADDR (snd (z80_run (fst (z80_init z80_zero)) (snd (z80_init z80_zero))
                        [0, 0, 0, 0])) = 0x0000 \<and>
   snd (z80_run (fst (z80_init z80_zero)) (snd (z80_init z80_zero)) [0, 0, 0, 0])
       AND Z80_CTRL_PIN_MASK = Z80_M1 OR Z80_MREQ OR Z80_RD \<and>
   pc (fst (z80_run (fst (z80_init z80_zero)) (snd (z80_init z80_zero))
              [0, 0, 0, 0])) = 0x0001"
proof -
  have d0: "Z80_GET_DATA 0 = 0"
    by (simp add: Z80_GET_DATA_def)
  have w0: "0 AND Z80_WAIT = 0"
    by simp
  from reset_nop_overlap_fetch [OF d0 w0 d0 w0 d0 w0 d0 w0, of z80_zero] d0 w0
  show ?thesis by (simp del: z80_run.simps)
qed

subsection \<open>opdone right after initialisation\<close>

text \<open>
  C9: right after \<open>z80_init\<close>, before any tick, \<open>z80_opdone\<close> is true: the decoder step of
  the zeroed state is 0.
\<close>

theorem z80_opdone_after_init: "z80_opdone (fst (z80_init cpu))"
  by (simp add: z80_opdone_def init_op)

subsection \<open>Registers no micro-step writes\<close>

text \<open>
  C10: for every CPU state and every input pin word, \<open>z80_tick\<close> leaves IX, IY, I, IM and
  the shadow pairs AF', BC', DE' and HL' unchanged.
\<close>

theorem z80_tick_index_shadow_unchanged:
  "ix (fst (z80_tick cpu p)) = ix cpu \<and> iy (fst (z80_tick cpu p)) = iy cpu \<and>
   reg_i (fst (z80_tick cpu p)) = reg_i cpu \<and> im (fst (z80_tick cpu p)) = im cpu \<and>
   af2 (fst (z80_tick cpu p)) = af2 cpu \<and> bc2 (fst (z80_tick cpu p)) = bc2 cpu \<and>
   de2 (fst (z80_tick cpu p)) = de2 cpu \<and> hl2 (fst (z80_tick cpu p)) = hl2 cpu"
proof -
  have "index_shadow_frame cpu (fst (z80_tick cpu p))"
    using switch_frame [where cpu = "cpu\<lparr>op := (op cpu)\<lparr>step := step (op cpu) + 1\<rparr>\<rparr>"
        and s = "step (op cpu)" and p = "p AND NOT Z80_CTRL_PIN_MASK"]
    by (simp add: z80_tick_def Let_def split_def index_shadow_frame_def)
  then show ?thesis by (simp add: index_shadow_frame_def)
qed

end
